theory Spec2Isabelle
  imports Main "HOL-Library.Word"
begin

section \<open>Values, results and managed code\<close>

text \<open>
  A shallow embedding of \<^verbatim>\<open>lib/VM/JSError.cpp\<close>: the error object with its captured
  stack trace, the lazy \<^verbatim>\<open>stack\<close> accessor, default string synthesis, the call-site
  projector and frame trimming.

  Strings are \<^typ>\<open>string\<close>; code units beyond ASCII play no part in the functions
  below. A \<^verbatim>\<open>HermesValue\<close> is one of the kinds the functions below distinguish; an object
  is its address in the heap. The array of call sites that the projector builds is kept
  as a value listing, for each element, the owning error and the absolute frame index.
\<close>

datatype HermesValue =
    UndefinedValue
  | NullValue
  | BoolValue bool
  | StringValue string
  | ObjectValue nat
  | CallSiteArrayValue "(nat \<times> nat) list"

text \<open>
  \<^verbatim>\<open>CallResult<T>\<close> and \<^verbatim>\<open>ExecutionStatus\<close>: either \<^verbatim>\<open>EXCEPTION\<close> (the thrown value is then
  in the runtime) or a returned value.
\<close>

datatype 'a CallResult = EXCEPTION | RETURNED 'a

type_synonym ExecutionStatus = "unit CallResult"

datatype Predefined =
    PredefinedName
  | PredefinedMessage
  | PredefinedStack
  | PredefinedPrepareStackTrace

text \<open>
  Modelled from the spec: managed code is an external collaborator (``the native-call
  dispatch mechanism for invoking managed callables''). What a managed function body
  does is a tree of the steps that matter here: it returns a value, throws a value, or
  reads the \<^verbatim>\<open>stack\<close> property of an object and goes on with the completion of
  that read (a thrown value it has caught, or the value read).
\<close>

datatype Completion = Normal HermesValue | Abrupt HermesValue

datatype UserCode =
    UReturn HermesValue
  | UThrow HermesValue
  | UGetStack nat "Completion \<Rightarrow> UserCode"

datatype Accessor =
    NativeErrorStackAccessor
  | UserAccessor "HermesValue \<Rightarrow> UserCode"

record DefinePropertyFlags =
  enumerable :: bool
  writable :: bool
  configurable :: bool

datatype Property =
    DataProperty HermesValue DefinePropertyFlags
  | AccessorProperty Accessor

section \<open>Code blocks and the error object\<close>

text \<open>
  The query surface of a compiled-code unit. A \<^verbatim>\<open>CodeBlock *\<close> is an address
  (\<^typ>\<open>nat option\<close>, \<^term>\<open>None\<close> for \<^verbatim>\<open>nullptr\<close>) into the runtime's table of code
  blocks. A \<^verbatim>\<open>SymbolID\<close> is \<^term>\<open>None\<close> when it is not valid.
\<close>

record DebugSourceLocation =
  filenameId :: "32 word"
  line :: "32 word"
  column :: "32 word"

record RuntimeModule =
  getDomain :: nat
  getSegmentID :: "32 word"
  getSourceURL :: string
  getLocationForAddress :: "32 word \<Rightarrow> 32 word \<Rightarrow> DebugSourceLocation option"
  getFilenameByID :: "32 word \<Rightarrow> string"

record CodeBlock =
  getNameMayAllocate :: "string option"
  getDebugSourceLocationsOffset :: "32 word option"
  getVirtualOffset :: "32 word"
  getRuntimeModule :: RuntimeModule

record StackTraceInfo =
  codeBlock :: "nat option"
  bytecodeOffset :: "32 word"

record JSError =
  stacktrace :: "StackTraceInfo list option"
  funcNames :: "HermesValue list option"
  domains :: "nat list option"
  firstExposedFrameIndex :: nat
  catchable :: bool

text \<open>
  An object of the heap: its prototype, its own named properties, the internal
  \<^verbatim>\<open>[[CapturedError]]\<close> slot, the \<^verbatim>\<open>JSError\<close> fields when the cell is a
  \<^verbatim>\<open>JSError\<close>, the body when it is callable, and what \<^verbatim>\<open>ToString\<close> runs on it.
\<close>

record JSObject =
  getParent :: "nat option"
  namedProperties :: "Predefined \<Rightarrow> Property option"
  capturedError :: "nat option"
  jsError :: "JSError option"
  callBody :: "(HermesValue \<Rightarrow> HermesValue \<Rightarrow> HermesValue \<Rightarrow> UserCode) option"
  toPrimitiveCode :: UserCode

text \<open>
  A live call frame, as the frame walker shows it: the callee (a closure or a raw
  \<^verbatim>\<open>CodeBlock\<close> pointer), the saved code block and instruction pointer of the caller,
  and the callee's own code block. An instruction pointer is kept as its offset in its
  code block, which is all \<^verbatim>\<open>getOffsetOf\<close> reads from it. For a callable callee the
  two descriptor lookups (\<^verbatim>\<open>displayName\<close>, then \<^verbatim>\<open>name\<close>) are given with the frame.
\<close>

record NamedPropertyDescriptor =
  flagAccessor :: bool
  flagProxyObject :: bool
  flagHostObject :: bool
  slotValue :: HermesValue

datatype CalleeClosureOrCB =
    CalleeCallable "NamedPropertyDescriptor option" "NamedPropertyDescriptor option"
  | CalleeOtherObject
  | CalleeNativePointer nat

record StackFrame =
  getCalleeClosureOrCBRef :: CalleeClosureOrCB
  getSavedCodeBlock :: "nat option"
  getSavedIP :: "32 word option"
  getCalleeCodeBlock :: "nat option"

text \<open>
  The runtime. \<^verbatim>\<open>allocPlan\<close> decides the fallible storage requests in the order they
  are made: each request takes the head, \<^term>\<open>False\<close> makes it fail, and an empty plan
  lets every request succeed. \<^verbatim>\<open>callLog\<close> records every callable that
  \<^verbatim>\<open>executeCall2\<close> has entered, so that invocations can be counted.
\<close>

record Runtime =
  heap :: "nat \<Rightarrow> JSObject"
  thrownValue :: "HermesValue option"
  formattingStackTrace :: bool
  errorConstructor :: nat
  getStackFrames :: "StackFrame list"
  codeBlocks :: "nat \<Rightarrow> CodeBlock"
  allocPlan :: "bool list"
  maxStringLength :: nat
  stacktraceTooLong :: string
  proxyTrap :: string
  stackOverflowError :: HermesValue
  rangeError :: HermesValue
  typeError :: HermesValue
  callLog :: "nat list"

text \<open>
  A call that does not return (a loop that never ends, a violated assertion) is
  \<^term>\<open>None\<close>; otherwise the runtime after the call and the result.
\<close>

type_synonym 'a Outcome = "(Runtime \<times> 'a CallResult) option"

type_synonym PropertyRead = "Runtime \<Rightarrow> nat \<Rightarrow> Predefined \<Rightarrow> HermesValue Outcome"

section \<open>Runtime services used by the error subsystem\<close>

definition setThrownValue :: "Runtime \<Rightarrow> HermesValue \<Rightarrow> Runtime" where
  "setThrownValue runtime v = runtime\<lparr>thrownValue := Some v\<rparr>"

definition clearThrownValue :: "Runtime \<Rightarrow> Runtime" where
  "clearThrownValue runtime = runtime\<lparr>thrownValue := None\<rparr>"

definition raiseStackOverflow :: "Runtime \<Rightarrow> Runtime \<times> 'a CallResult" where
  "raiseStackOverflow runtime = (setThrownValue runtime (stackOverflowError runtime), EXCEPTION)"

definition raiseRangeError :: "Runtime \<Rightarrow> Runtime \<times> 'a CallResult" where
  "raiseRangeError runtime = (setThrownValue runtime (rangeError runtime), EXCEPTION)"

definition raiseTypeError :: "Runtime \<Rightarrow> Runtime \<times> 'a CallResult" where
  "raiseTypeError runtime = (setThrownValue runtime (typeError runtime), EXCEPTION)"

text \<open>
  Modelled from the spec: \<^verbatim>\<open>isUncatchableError\<close> (declared in the header): a value is
  uncatchable when it is an error object whose \<^verbatim>\<open>catchable\<close> flag, fixed at
  construction, is off.
\<close>

definition isUncatchableError :: "Runtime \<Rightarrow> HermesValue \<Rightarrow> bool" where
  "isUncatchableError runtime v =
     (case v of
        ObjectValue a \<Rightarrow>
          (case jsError (heap runtime a) of
             Some e \<Rightarrow> \<not> catchable e
           | None \<Rightarrow> False)
      | _ \<Rightarrow> False)"

text \<open>
  Modelled from the spec: a fallible storage request (\<^verbatim>\<open>PropStorage::create\<close>,
  \<^verbatim>\<open>PropStorage::resize\<close>, \<^verbatim>\<open>ArrayStorageSmall::create\<close>, \<^verbatim>\<open>push_back\<close>,
  \<^verbatim>\<open>JSArray::create\<close>, \<^verbatim>\<open>JSCallSite::create\<close>, \<^verbatim>\<open>defineOwnProperty\<close>): it
  either succeeds or raises, as the plan says.
\<close>

definition allocate :: "Runtime \<Rightarrow> Runtime \<times> ExecutionStatus" where
  "allocate runtime =
     (case allocPlan runtime of
        [] \<Rightarrow> (runtime, RETURNED ())
      | ok # rest \<Rightarrow>
          if ok then (runtime\<lparr>allocPlan := rest\<rparr>, RETURNED ())
          else raiseRangeError (runtime\<lparr>allocPlan := rest\<rparr>))"

text \<open>
  Modelled from the spec: creating a string primitive or a string builder fails
  (``resource exhaustion constructing the string'') when the length does not fit the
  32-bit length (\<^verbatim>\<open>SafeUInt32\<close>) or exceeds the runtime's limit.
\<close>

definition createStringBuilder :: "Runtime \<Rightarrow> nat \<Rightarrow> Runtime \<times> ExecutionStatus" where
  "createStringBuilder runtime len =
     (if len \<ge> 2 ^ 32 \<or> len > maxStringLength runtime then raiseRangeError runtime
      else (runtime, RETURNED ()))"

definition StringPrimitive_create :: "Runtime \<Rightarrow> string \<Rightarrow> Runtime \<times> HermesValue CallResult" where
  "StringPrimitive_create runtime s =
     (if length s > maxStringLength runtime then raiseRangeError runtime
      else (runtime, RETURNED (StringValue s)))"

text \<open>
  Modelled from the spec: running managed code. \<^term>\<open>get\<close> is the property read the
  code performs. A thrown value that is uncatchable passes through the code; any other is
  handed to the code's continuation with the pending exception cleared.
\<close>

primrec runUserCode :: "UserCode \<Rightarrow> PropertyRead \<Rightarrow> Runtime \<Rightarrow> HermesValue Outcome" where
  "runUserCode (UReturn v) get runtime = Some (runtime, RETURNED v)"
| "runUserCode (UThrow v) get runtime = Some (setThrownValue runtime v, EXCEPTION)"
| "runUserCode (UGetStack a k) get runtime =
     (case get runtime a PredefinedStack of
        None \<Rightarrow> None
      | Some (rt1, RETURNED x) \<Rightarrow> runUserCode (k (Normal x)) get rt1
      | Some (rt1, EXCEPTION) \<Rightarrow>
          (case thrownValue rt1 of
             None \<Rightarrow> None
           | Some t \<Rightarrow>
               if isUncatchableError rt1 t then Some (rt1, EXCEPTION)
               else runUserCode (k (Abrupt t)) get (clearThrownValue rt1)))"

text \<open>
  Modelled from the spec: \<^verbatim>\<open>Callable::executeCall2\<close> enters the callable's body with
  the \<^verbatim>\<open>this\<close> value and the two arguments; a value that is not callable cannot be
  called.
\<close>

definition executeCall2 ::
  "PropertyRead \<Rightarrow> Runtime \<Rightarrow> nat \<Rightarrow> HermesValue \<Rightarrow> HermesValue \<Rightarrow> HermesValue
   \<Rightarrow> HermesValue Outcome" where
  "executeCall2 get runtime callee thisArg arg1 arg2 =
     (case callBody (heap runtime callee) of
        None \<Rightarrow> None
      | Some body \<Rightarrow>
          runUserCode (body thisArg arg1 arg2) get
            (runtime\<lparr>callLog := callLog runtime @ [callee]\<rparr>))"

text \<open>
  Modelled from the spec: \<^verbatim>\<open>toString_RJS\<close>, the language's \<^verbatim>\<open>ToString\<close>. A string
  is itself; an object runs its conversion code, whose result must be a primitive.
\<close>

definition primitiveToString :: "HermesValue \<Rightarrow> string" where
  "primitiveToString v =
     (case v of
        UndefinedValue \<Rightarrow> ''undefined''
      | NullValue \<Rightarrow> ''null''
      | BoolValue b \<Rightarrow> (if b then ''true'' else ''false'')
      | StringValue s \<Rightarrow> s
      | ObjectValue a \<Rightarrow> ''[object Object]''
      | CallSiteArrayValue cs \<Rightarrow> concat (map (\<lambda>c. ''[object CallSite]'') cs))"

definition toString_RJS :: "PropertyRead \<Rightarrow> Runtime \<Rightarrow> HermesValue \<Rightarrow> string Outcome" where
  "toString_RJS get runtime v =
     (case v of
        ObjectValue a \<Rightarrow>
          (case runUserCode (toPrimitiveCode (heap runtime a)) get runtime of
             None \<Rightarrow> None
           | Some (rt1, EXCEPTION) \<Rightarrow> Some (rt1, EXCEPTION)
           | Some (rt1, RETURNED (ObjectValue b)) \<Rightarrow> Some (raiseTypeError rt1)
           | Some (rt1, RETURNED p) \<Rightarrow> Some (rt1, RETURNED (primitiveToString p)))
      | _ \<Rightarrow> Some (runtime, RETURNED (primitiveToString v)))"

text \<open>
  Modelled from the spec: the native depth (``native call-depth is explicitly tracked and
  bounded'') and the depth reducer (``reserve extra permitted native-recursion budget so
  that formatting a stack-overflow error does not itself overflow''). A depth counts the
  native calls that the stack can still take, the reserve included. Ordinary code keeps
  the last \<^verbatim>\<open>kDepthAdjustment\<close> of them in reserve, so that it has no depth left when
  the depth is \<^verbatim>\<open>kDepthAdjustment\<close> or less; in the scope of a
  \<^verbatim>\<open>ScopedNativeDepthReducer\<close> the reserve may be used. A depth tracker overflows when
  the depth it may use is 0.
\<close>

definition kDepthAdjustment :: nat where
  "kDepthAdjustment = 3"

definition usableDepth :: "bool \<Rightarrow> nat \<Rightarrow> nat" where
  "usableDepth reduced depth = (if reduced then depth else depth - kDepthAdjustment)"

section \<open>\<^verbatim>\<open>JSError::toString\<close>\<close>

definition JSError_toString :: "PropertyRead \<Rightarrow> nat \<Rightarrow> Runtime \<Rightarrow> string Outcome" where
  "JSError_toString get O' runtime =
     (case get runtime O' PredefinedName of
        None \<Rightarrow> None
      | Some (rt1, EXCEPTION) \<Rightarrow> Some (rt1, EXCEPTION)
      | Some (rt1, RETURNED name) \<Rightarrow>
     (case (if name = UndefinedValue then Some (rt1, RETURNED ''Error'')
            else toString_RJS get rt1 name) of
        None \<Rightarrow> None
      | Some (rt2, EXCEPTION) \<Rightarrow> Some (rt2, EXCEPTION)
      | Some (rt2, RETURNED nameStr) \<Rightarrow>
     (case get rt2 O' PredefinedMessage of
        None \<Rightarrow> None
      | Some (rt3, EXCEPTION) \<Rightarrow> Some (rt3, EXCEPTION)
      | Some (rt3, RETURNED msg) \<Rightarrow>
     (case (if msg = UndefinedValue then Some (rt3, RETURNED [])
            else toString_RJS get rt3 msg) of
        None \<Rightarrow> None
      | Some (rt4, EXCEPTION) \<Rightarrow> Some (rt4, EXCEPTION)
      | Some (rt4, RETURNED msgStr) \<Rightarrow>
          if length nameStr = 0 then Some (rt4, RETURNED msgStr)
          else if length msgStr = 0 then Some (rt4, RETURNED nameStr)
          else
            (case createStringBuilder rt4 (length nameStr + 2 + length msgStr) of
               (rt5, EXCEPTION) \<Rightarrow> Some (rt5, EXCEPTION)
             | (rt5, RETURNED u) \<Rightarrow> Some (rt5, RETURNED (nameStr @ '': '' @ msgStr)))))))"

section \<open>Capturing the trace\<close>

text \<open>
  Modelled from the spec: the two storages of the capture. A \<^verbatim>\<open>PropStorage\<close> and an
  \<^verbatim>\<open>ArrayStorageSmall\<close> are lists; creating one with a capacity gives an empty one,
  resizing truncates or pads, and each may fail as the plan says.
\<close>

definition PropStorage_create :: "Runtime \<Rightarrow> nat \<Rightarrow> Runtime \<times> HermesValue list CallResult" where
  "PropStorage_create runtime capacity =
     (case allocate runtime of
        (rt1, EXCEPTION) \<Rightarrow> (rt1, EXCEPTION)
      | (rt1, RETURNED u) \<Rightarrow> (rt1, RETURNED []))"

definition PropStorage_resize ::
  "HermesValue list \<Rightarrow> Runtime \<Rightarrow> nat \<Rightarrow> Runtime \<times> HermesValue list CallResult" where
  "PropStorage_resize names runtime newSize =
     (case allocate runtime of
        (rt1, EXCEPTION) \<Rightarrow> (rt1, EXCEPTION)
      | (rt1, RETURNED u) \<Rightarrow>
          (rt1, RETURNED (take newSize names @ replicate (newSize - length names) UndefinedValue)))"

definition ArrayStorageSmall_create :: "Runtime \<Rightarrow> nat \<Rightarrow> Runtime \<times> nat list CallResult" where
  "ArrayStorageSmall_create runtime capacity =
     (case allocate runtime of
        (rt1, EXCEPTION) \<Rightarrow> (rt1, EXCEPTION)
      | (rt1, RETURNED u) \<Rightarrow> (rt1, RETURNED []))"

definition ArrayStorageSmall_push_back ::
  "nat list \<Rightarrow> Runtime \<Rightarrow> nat \<Rightarrow> Runtime \<times> nat list CallResult" where
  "ArrayStorageSmall_push_back storage runtime x =
     (case allocate runtime of
        (rt1, EXCEPTION) \<Rightarrow> (rt1, EXCEPTION)
      | (rt1, RETURNED u) \<Rightarrow> (rt1, RETURNED (storage @ [x])))"

text \<open>
  \<^verbatim>\<open>getCallStackFunctionNames\<close>. The name of one frame (the body of the loop up to
  the resize), then the loop with its two 32-bit counters, then the function.
  \<^term>\<open>None\<close> is the null handle.
\<close>

definition frameFunctionName :: "Runtime \<Rightarrow> StackFrame \<Rightarrow> HermesValue" where
  "frameFunctionName runtime cf =
     (case getCalleeClosureOrCBRef cf of
        CalleeCallable displayNameDesc nameDesc \<Rightarrow>
          (let propObj = (case displayNameDesc of Some d \<Rightarrow> Some d | None \<Rightarrow> nameDesc)
           in case propObj of
                Some desc \<Rightarrow>
                  if \<not> flagAccessor desc \<and> \<not> flagProxyObject desc \<and> \<not> flagHostObject desc
                  then slotValue desc
                  else if flagProxyObject desc then StringValue (proxyTrap runtime)
                  else UndefinedValue
              | None \<Rightarrow> UndefinedValue)
      | CalleeOtherObject \<Rightarrow> UndefinedValue
      | CalleeNativePointer cb \<Rightarrow>
          (case getNameMayAllocate (codeBlocks runtime cb) of
             Some n \<Rightarrow> StringValue n
           | None \<Rightarrow> UndefinedValue))"

fun namesLoop ::
  "bool \<Rightarrow> StackFrame list \<Rightarrow> 32 word \<Rightarrow> 32 word \<Rightarrow> HermesValue list \<Rightarrow> Runtime
   \<Rightarrow> Runtime \<times> HermesValue list option" where
  "namesLoop skipTopFrame [] frameIndex namesIndex names runtime = (runtime, Some names)"
| "namesLoop skipTopFrame (cf # frames) frameIndex namesIndex names runtime =
     (if frameIndex = 0 \<and> skipTopFrame
      then namesLoop skipTopFrame frames (frameIndex + 1) namesIndex names runtime
      else
        (let name = frameFunctionName runtime cf
         in case PropStorage_resize names runtime (unat (namesIndex + 1)) of
              (rt1, EXCEPTION) \<Rightarrow> (clearThrownValue rt1, None)
            | (rt1, RETURNED names1) \<Rightarrow>
                namesLoop skipTopFrame frames (frameIndex + 1) (namesIndex + 1)
                  (names1[unat namesIndex := name]) rt1))"

definition getCallStackFunctionNames ::
  "Runtime \<Rightarrow> bool \<Rightarrow> nat \<Rightarrow> Runtime \<times> HermesValue list option" where
  "getCallStackFunctionNames runtime skipTopFrame sizeHint =
     (case PropStorage_create runtime sizeHint of
        (rt1, EXCEPTION) \<Rightarrow> (clearThrownValue rt1, None)
      | (rt1, RETURNED names) \<Rightarrow>
          namesLoop skipTopFrame (getStackFrames rt1) 0 0 names rt1)"

text \<open>
  \<^verbatim>\<open>JSError::recordStackTrace\<close>. \<^verbatim>\<open>addDomain\<close> is the lambda of the source;
  \<^verbatim>\<open>topEntry\<close> is the entry of the current code block and
  \<^verbatim>\<open>fillCallStack\<close> the loop over the live frames, innermost first, where the
  previous frame of a frame is the next one of the list and the last frame's previous
  frame is the end marker; \<^verbatim>\<open>captureFrames\<close> is the part of the function that
  allocates the domains and runs the two. Popping the last entry of an empty trace does
  not return.
\<close>

definition addDomain :: "nat list \<Rightarrow> Runtime \<Rightarrow> nat \<Rightarrow> Runtime \<times> nat list CallResult" where
  "addDomain domains' runtime cb =
     (let domain = getDomain (getRuntimeModule (codeBlocks runtime cb))
      in if length domains' > 0 \<and> domains' ! (length domains' - 1) = domain
         then (runtime, RETURNED domains')
         else ArrayStorageSmall_push_back domains' runtime domain)"

fun fillCallStack ::
  "StackFrame list \<Rightarrow> StackTraceInfo list \<Rightarrow> nat list \<Rightarrow> Runtime
   \<Rightarrow> Runtime \<times> (StackTraceInfo list \<times> nat list) CallResult" where
  "fillCallStack [] stack domains' runtime = (runtime, RETURNED (stack, domains'))"
| "fillCallStack (cf # frames) stack domains' runtime =
     (let savedIP = getSavedIP cf;
          savedCodeBlock =
            (case frames of
               [] \<Rightarrow> getSavedCodeBlock cf
             | prev # outer \<Rightarrow>
                 (case getCalleeCodeBlock prev of
                    Some parentCB \<Rightarrow> Some parentCB
                  | None \<Rightarrow> getSavedCodeBlock cf))
      in case (savedCodeBlock, savedIP) of
           (Some cb, Some off) \<Rightarrow>
             (case addDomain domains' runtime cb of
                (rt1, EXCEPTION) \<Rightarrow> (rt1, EXCEPTION)
              | (rt1, RETURNED domains1) \<Rightarrow>
                  fillCallStack frames
                    (stack @ [\<lparr>codeBlock = Some cb, bytecodeOffset = off\<rparr>]) domains1 rt1)
         | _ \<Rightarrow>
             fillCallStack frames
               (stack @ [\<lparr>codeBlock = None, bytecodeOffset = 0\<rparr>]) domains' runtime)"

definition topEntry ::
  "bool \<Rightarrow> nat option \<Rightarrow> 32 word \<Rightarrow> nat list \<Rightarrow> Runtime
   \<Rightarrow> Runtime \<times> (StackTraceInfo list \<times> nat list) CallResult" where
  "topEntry skipTopFrame codeBlock' ip domains' runtime =
     (if \<not> skipTopFrame then
        (case codeBlock' of
           Some cb \<Rightarrow>
             (case addDomain domains' runtime cb of
                (rt1, EXCEPTION) \<Rightarrow> (rt1, EXCEPTION)
              | (rt1, RETURNED domains1) \<Rightarrow>
                  (rt1, RETURNED ([\<lparr>codeBlock = Some cb, bytecodeOffset = ip\<rparr>], domains1)))
         | None \<Rightarrow> (runtime, RETURNED ([\<lparr>codeBlock = None, bytecodeOffset = 0\<rparr>], domains')))
      else (runtime, RETURNED ([], domains')))"

definition captureFrames ::
  "Runtime \<Rightarrow> bool \<Rightarrow> nat option \<Rightarrow> 32 word
   \<Rightarrow> Runtime \<times> (StackTraceInfo list \<times> nat list) CallResult" where
  "captureFrames runtime skipTopFrame codeBlock' ip =
     (case ArrayStorageSmall_create runtime 1 of
        (rt1, EXCEPTION) \<Rightarrow> (rt1, EXCEPTION)
      | (rt1, RETURNED domains0) \<Rightarrow>
          (case topEntry skipTopFrame codeBlock' ip domains0 rt1 of
             (rt2, EXCEPTION) \<Rightarrow> (rt2, EXCEPTION)
           | (rt2, RETURNED (stack0, domains1)) \<Rightarrow>
               fillCallStack (getStackFrames rt2) stack0 domains1 rt2))"

definition recordStackTrace ::
  "JSError \<Rightarrow> Runtime \<Rightarrow> bool \<Rightarrow> nat option \<Rightarrow> 32 word
   \<Rightarrow> (Runtime \<times> JSError \<times> ExecutionStatus) option" where
  "recordStackTrace self runtime skipTopFrame codeBlock' ip =
     (if stacktrace self \<noteq> None then Some (runtime, self, RETURNED ())
      else
        (let frames = getStackFrames runtime
         in if \<not> skipTopFrame \<and> codeBlock' = None \<and> frames \<noteq> []
               \<and> getCalleeCodeBlock (hd frames) \<noteq> None
            then Some (runtime, self, RETURNED ())
            else
              (case captureFrames runtime skipTopFrame codeBlock' ip of
                 (rt3, EXCEPTION) \<Rightarrow> Some (rt3, self, EXCEPTION)
               | (rt3, RETURNED (stack1, domains2)) \<Rightarrow>
                   (let self1 = self\<lparr>domains := Some domains2\<rparr>
                    in if stack1 = [] then None
                       else
                         (let stack2 = butlast stack1;
                              (rt4, names) =
                                getCallStackFunctionNames rt3 skipTopFrame (length stack2)
                          in Some (rt4, self1\<lparr>stacktrace := Some stack2, funcNames := names\<rparr>,
                                   RETURNED ()))))))"

section \<open>Default string synthesis\<close>

text \<open>
  Modelled from the spec: \<^verbatim>\<open>numberToString\<close> on the integers it is given here (a
  frame count, a line, a column) writes them in decimal.
\<close>

fun decimalDigits :: "nat \<Rightarrow> string" where
  "decimalDigits n =
     (if n < 10 then [''0123456789'' ! n]
      else decimalDigits (n div 10) @ [''0123456789'' ! (n mod 10)])"

definition numberToString :: "int \<Rightarrow> string" where
  "numberToString i = (if i < 0 then ''-'' @ decimalDigits (nat (- i)) else decimalDigits (nat i))"

definition newline :: string where
  "newline = [CHR 0x0A]"

text \<open>
  \<^verbatim>\<open>size_t\<close> subtraction, on sizes below \<open>2 ^ 64\<close>: it wraps around where the
  second operand is the larger.
\<close>

definition size_t_sub :: "nat \<Rightarrow> nat \<Rightarrow> nat" where
  "size_t_sub a b = (if b \<le> a then a - b else 2 ^ 64 - (b - a))"

definition PRINT_HEAD :: nat where
  "PRINT_HEAD = 50"

definition PRINT_TAIL :: nat where
  "PRINT_TAIL = 50"

definition getDebugInfo :: "Runtime \<Rightarrow> nat \<Rightarrow> 32 word \<Rightarrow> DebugSourceLocation option" where
  "getDebugInfo runtime cb bytecodeOffset' =
     (case getDebugSourceLocationsOffset (codeBlocks runtime cb) of
        None \<Rightarrow> None
      | Some offset \<Rightarrow>
          getLocationForAddress (getRuntimeModule (codeBlocks runtime cb)) offset bytecodeOffset')"

text \<open>
  \<^verbatim>\<open>JSError::getFunctionNameAtIndex\<close>: the inner \<^term>\<open>None\<close> is the null handle. An
  index outside the name list or the trace, and a code block whose name symbol is not
  valid, do not return.
\<close>

definition getFunctionNameAtIndex :: "Runtime \<Rightarrow> JSError \<Rightarrow> nat \<Rightarrow> string option option" where
  "getFunctionNameAtIndex runtime self index =
     (case (case funcNames self of
              None \<Rightarrow> Some (Some [])
            | Some names \<Rightarrow>
                if index < length names
                then Some (case names ! index of StringValue s \<Rightarrow> Some s | _ \<Rightarrow> None)
                else None) of
        None \<Rightarrow> None
      | Some name \<Rightarrow>
     (case (if name = None \<or> name = Some []
            then
              (case stacktrace self of
                 None \<Rightarrow> None
               | Some trace \<Rightarrow>
                   if index < length trace
                   then
                     (case codeBlock (trace ! index) of
                        None \<Rightarrow> Some name
                      | Some cb \<Rightarrow>
                          (case getNameMayAllocate (codeBlocks runtime cb) of
                             None \<Rightarrow> None
                           | Some n \<Rightarrow> Some (Some n)))
                   else None)
            else Some name) of
        None \<Rightarrow> None
      | Some name1 \<Rightarrow>
          if name1 = None \<or> name1 = Some [] then Some None else Some name1))"

definition appendFunctionNameAtIndex ::
  "Runtime \<Rightarrow> JSError \<Rightarrow> nat \<Rightarrow> string \<Rightarrow> (bool \<times> string) option" where
  "appendFunctionNameAtIndex runtime self index str =
     (case getFunctionNameAtIndex runtime self index of
        None \<Rightarrow> None
      | Some None \<Rightarrow> Some (False, str)
      | Some (Some name) \<Rightarrow> Some (True, str @ name))"

text \<open>
  One round of the loop of \<^verbatim>\<open>constructStackTraceString_RJS\<close>, from the computation
  of \<^verbatim>\<open>absIndex\<close> on: the line of one frame is appended to \<^verbatim>\<open>stack\<close>, and the
  cache of virtual offsets, keyed by code block, is filled on a miss.
\<close>

definition appendFrame ::
  "Runtime \<Rightarrow> JSError \<Rightarrow> (nat \<Rightarrow> 32 word option) \<Rightarrow> nat \<Rightarrow> string
   \<Rightarrow> (string \<times> (nat \<Rightarrow> 32 word option)) option" where
  "appendFrame runtime self virtualOffsetCache absIndex stack =
     (case stacktrace self of
        None \<Rightarrow> None
      | Some trace \<Rightarrow>
          if absIndex < length trace then
            (let sti = trace ! absIndex
             in case appendFunctionNameAtIndex runtime self absIndex
                       (stack @ newline @ ''    at '') of
                  None \<Rightarrow> None
                | Some (appended, stack1) \<Rightarrow>
                    (let stack2 = (if \<not> appended then stack1 @ ''anonymous'' else stack1)
                     in case codeBlock sti of
                          None \<Rightarrow> Some (stack2 @ '' (native)'', virtualOffsetCache)
                        | Some cb \<Rightarrow>
                            (let runtimeModule = getRuntimeModule (codeBlocks runtime cb)
                             in case getDebugInfo runtime cb (bytecodeOffset sti) of
                                  Some location \<Rightarrow>
                                    Some (stack2 @ '' (''
                                          @ getFilenameByID runtimeModule (filenameId location)
                                          @ '':'' @ numberToString (sint (line location))
                                          @ '':'' @ numberToString (sint (column location))
                                          @ '')'',
                                          virtualOffsetCache)
                                | None \<Rightarrow>
                                    (let (virtualOffset, cache1) =
                                           (case virtualOffsetCache cb of
                                              None \<Rightarrow>
                                                (getVirtualOffset (codeBlocks runtime cb),
                                                 virtualOffsetCache
                                                   (cb \<mapsto> getVirtualOffset (codeBlocks runtime cb)))
                                            | Some v \<Rightarrow> (v, virtualOffsetCache));
                                         lineNo = sint (getSegmentID runtimeModule + 1);
                                         columnNo = sint (bytecodeOffset sti + virtualOffset);
                                         sourceURL = getSourceURL runtimeModule
                                     in Some (stack2 @ '' ('' @ ''address at ''
                                              @ (if sourceURL = [] then ''unknown'' else sourceURL)
                                              @ '':'' @ numberToString lineNo
                                              @ '':'' @ numberToString columnNo
                                              @ '')'',
                                              cache1)))))
          else None)"

text \<open>
  The loop itself: \<^verbatim>\<open>index\<close> runs below \<^verbatim>\<open>max\<close>, writes the marker at
  \<^verbatim>\<open>PRINT_HEAD\<close> and jumps over the middle frames when \<^verbatim>\<open>max\<close> exceeds
  \<^verbatim>\<open>PRINT_HEAD + PRINT_TAIL\<close>.
\<close>

function appendFrames ::
  "Runtime \<Rightarrow> JSError \<Rightarrow> nat \<Rightarrow> (nat \<Rightarrow> 32 word option) \<Rightarrow> nat \<Rightarrow> string \<Rightarrow> string option" where
  "appendFrames runtime self max' virtualOffsetCache index stack =
     (if index < max' then
        (if max' > PRINT_HEAD + PRINT_TAIL \<and> index = PRINT_HEAD then
           appendFrames runtime self max' virtualOffsetCache (index + 1)
             (stack @ newline @ ''    ... skipping ''
              @ numberToString (int (max' - PRINT_HEAD - PRINT_TAIL)) @ '' frames'')
         else
           (let index1 =
                  (if max' > PRINT_HEAD + PRINT_TAIL \<and> index > PRINT_HEAD
                      \<and> index < max' - PRINT_TAIL
                   then max' - PRINT_TAIL else index);
                absIndex = index1 + firstExposedFrameIndex self
            in case appendFrame runtime self virtualOffsetCache absIndex stack of
                 None \<Rightarrow> None
               | Some (stack1, cache1) \<Rightarrow>
                   appendFrames runtime self max' cache1 (index1 + 1) stack1))
      else Some stack)"
  by pat_completeness auto
termination
  by (relation "measure (\<lambda>(runtime, self, max', virtualOffsetCache, index, stack). max' - index)")
     (auto simp: PRINT_HEAD_def PRINT_TAIL_def split: if_splits)

text \<open>
  \<^verbatim>\<open>JSError::constructStackTraceString_RJS\<close>. Its first part describes the target
  with \<^verbatim>\<open>JSError::toString\<close> and handles the failure of that call; the second part is
  the loop over the exposed frames. \<^term>\<open>depth\<close> is the native depth that the depth
  tracker may use: it overflows when none is left.
\<close>

text \<open>
  Modelled from the spec: \<^verbatim>\<open>HermesValue::isObject\<close>. The array of call sites is an
  object too. It is not in the heap of the model: it has no \<^verbatim>\<open>name\<close> and no
  \<^verbatim>\<open>message\<close>, neither its own nor inherited, so that \<^verbatim>\<open>JSError::toString\<close>
  of it, which \<^verbatim>\<open>appendErrorDescription\<close> below asks for when it is the thrown
  value, is \<^verbatim>\<open>"Error"\<close>.
\<close>

definition isObject :: "HermesValue \<Rightarrow> bool" where
  "isObject v =
     (case v of
        ObjectValue a \<Rightarrow> True
      | CallSiteArrayValue sites \<Rightarrow> True
      | _ \<Rightarrow> False)"

definition isUncatchableThrown :: "Runtime \<Rightarrow> bool" where
  "isUncatchableThrown runtime =
     (case thrownValue runtime of
        Some v \<Rightarrow> isUncatchableError runtime v
      | None \<Rightarrow> False)"

definition appendErrorDescription ::
  "PropertyRead \<Rightarrow> Runtime \<Rightarrow> nat \<Rightarrow> string \<Rightarrow> string Outcome" where
  "appendErrorDescription get runtime targetHandle stack =
     (case JSError_toString get targetHandle runtime of
        None \<Rightarrow> None
      | Some (rt1, res) \<Rightarrow>
     (let targetHandleToStringThrew = (res = EXCEPTION)
      in case (if res = EXCEPTION \<and> \<not> isUncatchableThrown rt1
               then
                 (case thrownValue rt1 of
                    Some thrown \<Rightarrow>
                      if isObject thrown
                      then
                        (case thrown of
                           ObjectValue thrownObject \<Rightarrow>
                             JSError_toString get thrownObject (clearThrownValue rt1)
                         | _ \<Rightarrow> Some (clearThrownValue rt1, RETURNED ''Error''))
                      else Some (rt1, res)
                  | None \<Rightarrow> Some (rt1, res))
               else Some (rt1, res)) of
           None \<Rightarrow> None
         | Some (rt2, EXCEPTION) \<Rightarrow>
             if isUncatchableThrown rt2 then Some (rt2, EXCEPTION)
             else Some (clearThrownValue rt2, RETURNED (stack @ ''<error>''))
         | Some (rt2, RETURNED str) \<Rightarrow>
             Some (rt2,
                   RETURNED
                     (stack
                      @ (if targetHandleToStringThrew
                         then ''<while converting error to string: '' else [])
                      @ str
                      @ (if targetHandleToStringThrew then ''>'' else [])))))"

definition constructStackTraceString_RJS ::
  "PropertyRead \<Rightarrow> nat \<Rightarrow> Runtime \<Rightarrow> JSError \<Rightarrow> nat \<Rightarrow> string \<Rightarrow> string Outcome" where
  "constructStackTraceString_RJS get depth runtime self targetHandle stack =
     (if depth = 0 then Some (raiseStackOverflow runtime)
      else
        (case appendErrorDescription get runtime targetHandle stack of
           None \<Rightarrow> None
         | Some (rt1, EXCEPTION) \<Rightarrow> Some (rt1, EXCEPTION)
         | Some (rt1, RETURNED stack1) \<Rightarrow>
             (case stacktrace self of
                None \<Rightarrow> None
              | Some trace \<Rightarrow>
                  (case appendFrames rt1 self
                          (size_t_sub (length trace) (firstExposedFrameIndex self))
                          Map.empty 0 stack1 of
                     None \<Rightarrow> None
                   | Some stack2 \<Rightarrow> Some (rt1, RETURNED stack2)))))"

section \<open>The call-site projector and frame trimming\<close>

text \<open>
  Modelled from the spec: \<^verbatim>\<open>JSArray::create\<close> and \<^verbatim>\<open>JSCallSite::create\<close>, which
  allocate and so may fail. A call site refers to its error and an absolute frame index.
\<close>

definition JSArray_create :: "Runtime \<Rightarrow> nat \<Rightarrow> nat \<Rightarrow> Runtime \<times> (nat \<times> nat) list CallResult" where
  "JSArray_create runtime capacity len =
     (case allocate runtime of
        (rt1, EXCEPTION) \<Rightarrow> (rt1, EXCEPTION)
      | (rt1, RETURNED u) \<Rightarrow> (rt1, RETURNED []))"

definition JSCallSite_create :: "Runtime \<Rightarrow> nat \<Rightarrow> nat \<Rightarrow> Runtime \<times> (nat \<times> nat) CallResult" where
  "JSCallSite_create runtime selfHandle absIndex =
     (case allocate runtime of
        (rt1, EXCEPTION) \<Rightarrow> (rt1, EXCEPTION)
      | (rt1, RETURNED u) \<Rightarrow> (rt1, RETURNED (selfHandle, absIndex)))"

function callSitesLoop ::
  "nat \<Rightarrow> JSError \<Rightarrow> nat \<Rightarrow> nat \<Rightarrow> (nat \<times> nat) list \<Rightarrow> Runtime
   \<Rightarrow> Runtime \<times> (nat \<times> nat) list CallResult" where
  "callSitesLoop selfHandle self max' index array runtime =
     (if index < max' then
        (let absIndex = index + firstExposedFrameIndex self
         in case JSCallSite_create runtime selfHandle absIndex of
              (rt1, EXCEPTION) \<Rightarrow> (rt1, EXCEPTION)
            | (rt1, RETURNED callSite) \<Rightarrow>
                callSitesLoop selfHandle self max' (index + 1) (array @ [callSite]) rt1)
      else (runtime, RETURNED array))"
  by pat_completeness auto
termination
  by (relation "measure (\<lambda>(selfHandle, self, max', index, array, runtime). max' - index)") auto

definition constructCallSitesArray ::
  "Runtime \<Rightarrow> nat \<Rightarrow> JSError \<Rightarrow> Runtime \<times> HermesValue CallResult" where
  "constructCallSitesArray runtime selfHandle self =
     (let max' =
            (case stacktrace self of
               Some trace \<Rightarrow> size_t_sub (length trace) (firstExposedFrameIndex self)
             | None \<Rightarrow> 0)
      in case JSArray_create runtime max' 0 of
           (rt1, EXCEPTION) \<Rightarrow> (rt1, EXCEPTION)
         | (rt1, RETURNED array) \<Rightarrow>
             if stacktrace self = None then (rt1, RETURNED (CallSiteArrayValue array))
             else
               (case callSitesLoop selfHandle self max' 0 array rt1 of
                  (rt2, EXCEPTION) \<Rightarrow> (rt2, EXCEPTION)
                | (rt2, RETURNED sites) \<Rightarrow> (rt2, RETURNED (CallSiteArrayValue sites))))"





section \<open>The \<^verbatim>\<open>stack\<close> accessor\<close>

text \<open>
  \<^verbatim>\<open>getErrorFromStackTarget\<close> walks the prototype chain; on a chain that never ends
  it does not return. The outer \<^term>\<open>None\<close> is that, the inner one is
  \<^verbatim>\<open>llvh::None\<close>.
\<close>

partial_function (option) getErrorFromStackTarget ::
  "(nat \<Rightarrow> JSObject) \<Rightarrow> nat option \<Rightarrow> nat option option" where
  "getErrorFromStackTarget hp targetHandle =
     (case targetHandle of
        None \<Rightarrow> Some None
      | Some t \<Rightarrow>
          (case capturedError (hp t) of
             Some e \<Rightarrow> Some (Some e)
           | None \<Rightarrow>
               if jsError (hp t) \<noteq> None then Some (Some t)
               else getErrorFromStackTarget hp (getParent (hp t))))"

text \<open>
  Modelled from the spec: the property system (``get/define named property, with
  accessor vs. data distinction''). A named property is looked up on the object and then
  along its prototypes; defining an own property stores a plain value with the given
  flags, or fails as the storage plan says and then changes nothing.
\<close>

partial_function (option) getNamedDescriptor ::
  "(nat \<Rightarrow> JSObject) \<Rightarrow> Predefined \<Rightarrow> nat option \<Rightarrow> Property option option" where
  "getNamedDescriptor hp P obj =
     (case obj of
        None \<Rightarrow> Some None
      | Some a \<Rightarrow>
          (case namedProperties (hp a) P of
             Some p \<Rightarrow> Some (Some p)
           | None \<Rightarrow> getNamedDescriptor hp P (getParent (hp a))))"

definition getNewNonEnumerableFlags :: DefinePropertyFlags where
  "getNewNonEnumerableFlags = \<lparr>enumerable = False, writable = True, configurable = True\<rparr>"

definition defineOwnProperty ::
  "nat \<Rightarrow> Runtime \<Rightarrow> Predefined \<Rightarrow> DefinePropertyFlags \<Rightarrow> HermesValue \<Rightarrow> Runtime \<times> bool CallResult" where
  "defineOwnProperty selfHandle runtime P dpf v =
     (case allocate runtime of
        (rt1, EXCEPTION) \<Rightarrow> (rt1, EXCEPTION)
      | (rt1, RETURNED u) \<Rightarrow>
          (rt1\<lparr>heap := (heap rt1)
                  (selfHandle := (heap rt1 selfHandle)
                     \<lparr>namedProperties :=
                        (namedProperties (heap rt1 selfHandle))(P \<mapsto> DataProperty v dpf)\<rparr>)\<rparr>,
           RETURNED True))"

definition dyn_vmcast_Callable :: "Runtime \<Rightarrow> HermesValue \<Rightarrow> nat option" where
  "dyn_vmcast_Callable runtime v =
     (case v of
        ObjectValue a \<Rightarrow> (if callBody (heap runtime a) \<noteq> None then Some a else None)
      | _ \<Rightarrow> None)"

definition dyncastThis_JSObject :: "HermesValue \<Rightarrow> nat option" where
  "dyncastThis_JSObject v = (case v of ObjectValue a \<Rightarrow> Some a | _ \<Rightarrow> None)"

text \<open>
  \<^verbatim>\<open>errorStackGetter\<close>, in three parts: the branch that calls the
  \<^verbatim>\<open>prepareStackTrace\<close> hook under the recursion guard (the guard's scope is that
  branch, so the flag is cleared where the branch is left), the branch that synthesizes the
  default string, and the getter around them. \<^term>\<open>get\<close> is the property read of the
  property system, which the getter uses itself and which managed code called from
  here uses. The \<^term>\<open>get\<close> of \<^verbatim>\<open>errorStackGetter\<close> is first told whether a depth
  reducer is in scope, and \<^term>\<open>depth\<close> is the native depth that is left, the reserve
  included. The \<^verbatim>\<open>ScopedNativeDepthReducer\<close> of the getter is in scope from the test
  for a trace on: the getter then reads and formats with the reserve, also where ordinary
  code has no depth left.
\<close>

definition formatWithPrepareStackTrace ::
  "PropertyRead \<Rightarrow> Runtime \<Rightarrow> nat \<Rightarrow> nat \<Rightarrow> JSError \<Rightarrow> nat \<Rightarrow> HermesValue Outcome" where
  "formatWithPrepareStackTrace get runtime prepareStackTrace errorHandle self targetHandle =
     (let rt0 = runtime\<lparr>formattingStackTrace := True\<rparr>
      in case constructCallSitesArray rt0 errorHandle self of
           (rt1, EXCEPTION) \<Rightarrow> Some (rt1\<lparr>formattingStackTrace := False\<rparr>, EXCEPTION)
         | (rt1, RETURNED callSites) \<Rightarrow>
             (case executeCall2 get rt1 prepareStackTrace NullValue (ObjectValue targetHandle)
                     callSites of
                None \<Rightarrow> None
              | Some (rt2, EXCEPTION) \<Rightarrow> Some (rt2\<lparr>formattingStackTrace := False\<rparr>, EXCEPTION)
              | Some (rt2, RETURNED prepareRes) \<Rightarrow>
                  Some (rt2\<lparr>formattingStackTrace := False\<rparr>, RETURNED prepareRes)))"

definition formatWithDefaultString ::
  "PropertyRead \<Rightarrow> nat \<Rightarrow> Runtime \<Rightarrow> JSError \<Rightarrow> nat \<Rightarrow> HermesValue Outcome" where
  "formatWithDefaultString get depth runtime self targetHandle =
     (case constructStackTraceString_RJS get depth runtime self targetHandle [] of
        None \<Rightarrow> None
      | Some (rt1, EXCEPTION) \<Rightarrow> Some (rt1, EXCEPTION)
      | Some (rt1, RETURNED stack) \<Rightarrow>
          (case StringPrimitive_create rt1 stack of
             (rt2, EXCEPTION) \<Rightarrow>
               Some (clearThrownValue rt2, RETURNED (StringValue (stacktraceTooLong rt2)))
           | (rt2, RETURNED strRes) \<Rightarrow> Some (rt2, RETURNED strRes)))"

definition formatStackTrace ::
  "PropertyRead \<Rightarrow> nat \<Rightarrow> Runtime \<Rightarrow> nat \<Rightarrow> JSError \<Rightarrow> nat \<Rightarrow> HermesValue Outcome" where
  "formatStackTrace get depth runtime errorHandle self targetHandle =
     (case get runtime (errorConstructor runtime) PredefinedPrepareStackTrace of
        None \<Rightarrow> None
      | Some (rt1, EXCEPTION) \<Rightarrow> Some (rt1, EXCEPTION)
      | Some (rt1, RETURNED prepareStackTraceRes) \<Rightarrow>
          (case dyn_vmcast_Callable rt1 prepareStackTraceRes of
             Some prepareStackTrace \<Rightarrow>
               if \<not> formattingStackTrace rt1
               then formatWithPrepareStackTrace get rt1 prepareStackTrace errorHandle self
                      targetHandle
               else formatWithDefaultString get depth rt1 self targetHandle
           | None \<Rightarrow> formatWithDefaultString get depth rt1 self targetHandle))"

definition errorStackGetter ::
  "(bool \<Rightarrow> PropertyRead) \<Rightarrow> nat \<Rightarrow> Runtime \<Rightarrow> HermesValue \<Rightarrow> HermesValue Outcome" where
  "errorStackGetter get depth runtime this =
     (case getErrorFromStackTarget (heap runtime) (dyncastThis_JSObject this) of
        None \<Rightarrow> None
      | Some None \<Rightarrow> Some (runtime, RETURNED UndefinedValue)
      | Some (Some errorHandle) \<Rightarrow>
          (case (dyncastThis_JSObject this, jsError (heap runtime errorHandle)) of
             (Some targetHandle, Some self) \<Rightarrow>
               if stacktrace self = None then Some (runtime, RETURNED (StringValue []))
               else
                 (let reducer = True
                  in case formatStackTrace (get reducer) (usableDepth reducer depth) runtime
                            errorHandle self targetHandle of
                       None \<Rightarrow> None
                     | Some (rt1, EXCEPTION) \<Rightarrow> Some (rt1, EXCEPTION)
                     | Some (rt1, RETURNED stackTraceFormatted) \<Rightarrow>
                         (case defineOwnProperty targetHandle rt1 PredefinedStack
                                 getNewNonEnumerableFlags stackTraceFormatted of
                            (rt2, EXCEPTION) \<Rightarrow> Some (rt2, EXCEPTION)
                          | (rt2, RETURNED ok) \<Rightarrow> Some (rt2, RETURNED stackTraceFormatted)))
           | _ \<Rightarrow> None))"

text \<open>
  Modelled from the spec: \<^verbatim>\<open>JSObject::getNamed_RJS\<close>, with the native depth that is
  left and whether a depth reducer is in scope. A plain value is returned as it is; an
  accessor is called with the receiver, which takes one level of depth and raises the
  stack overflow when no usable depth is left.
\<close>

function getNamed_RJS ::
  "nat \<Rightarrow> bool \<Rightarrow> Runtime \<Rightarrow> nat \<Rightarrow> Predefined \<Rightarrow> HermesValue Outcome" where
  "getNamed_RJS depth reduced runtime obj P =
     (case getNamedDescriptor (heap runtime) P (Some obj) of
        None \<Rightarrow> None
      | Some None \<Rightarrow> Some (runtime, RETURNED UndefinedValue)
      | Some (Some (DataProperty v flags)) \<Rightarrow> Some (runtime, RETURNED v)
      | Some (Some (AccessorProperty accessor)) \<Rightarrow>
          if usableDepth reduced depth = 0 then Some (raiseStackOverflow runtime)
          else
            (case accessor of
               NativeErrorStackAccessor \<Rightarrow>
                 errorStackGetter (\<lambda>r rt a p. getNamed_RJS (depth - 1) r rt a p) (depth - 1)
                   runtime (ObjectValue obj)
             | UserAccessor body \<Rightarrow>
                 runUserCode (body (ObjectValue obj))
                   (\<lambda>rt a p. getNamed_RJS (depth - 1) reduced rt a p) runtime))"
  by pat_completeness auto
termination
  by (relation "measure (\<lambda>(depth, reduced, runtime, obj, P). depth)")
     (auto simp: usableDepth_def split: if_splits)

declare getNamed_RJS.simps [simp del]
declare appendFrames.simps [simp del]
declare callSitesLoop.simps [simp del]
declare decimalDigits.simps [simp del]

section \<open>Notions used in the statements\<close>

text \<open>
  A prototype chain that ends without an error on it: no object of the chain is a
  \<^verbatim>\<open>JSError\<close> and none has the \<^verbatim>\<open>[[CapturedError]]\<close> slot.
\<close>

inductive noErrorOnChain :: "(nat \<Rightarrow> JSObject) \<Rightarrow> nat option \<Rightarrow> bool" where
  noErrorOnChain_null: "noErrorOnChain hp None"
| noErrorOnChain_step:
    "capturedError (hp t) = None \<Longrightarrow> jsError (hp t) = None
     \<Longrightarrow> noErrorOnChain hp (getParent (hp t)) \<Longrightarrow> noErrorOnChain hp (Some t)"


text \<open>
  The frames that the name snapshot names (all but the top one when it is skipped), and
  the relation between the two lists of an error: the names are absent or as many as the
  entries of the trace.
\<close>

definition namedFrames :: "Runtime \<Rightarrow> bool \<Rightarrow> StackFrame list" where
  "namedFrames runtime skipTopFrame =
     (if skipTopFrame then tl (getStackFrames runtime) else getStackFrames runtime)"

definition namesMatchTrace :: "JSError \<Rightarrow> bool" where
  "namesMatchTrace self =
     (case funcNames self of
        None \<Rightarrow> True
      | Some names \<Rightarrow>
          (case stacktrace self of
             Some trace \<Rightarrow> length names = length trace
           | None \<Rightarrow> False))"

text \<open>
  The line of one frame in the words of the spec:
  \<^verbatim>\<open>"\\n    at " + (functionName|"anonymous") + " (" + location + ")"\<close>. The function
  name is the name of the snapshot when that is a non-empty string, otherwise the name of
  the code unit, and \<^verbatim>\<open>"anonymous"\<close> when neither gives one. The location of a
  native frame (no code unit) is \<^verbatim>\<open>native\<close>; with debug source information for
  the code unit and the offset it is \<^verbatim>\<open>filename:line:column\<close>; otherwise it is
  synthesized: \<^verbatim>\<open>"address at "\<close>, the source URL or \<^verbatim>\<open>unknown\<close>, the segment
  id plus one as the line, and the bytecode offset plus the virtual offset of the code
  unit as the column.
\<close>

definition frameName :: "Runtime \<Rightarrow> StackTraceInfo \<Rightarrow> HermesValue option \<Rightarrow> string" where
  "frameName runtime sti snapshot =
     (let ownName = (case snapshot of Some (StringValue s) \<Rightarrow> s | _ \<Rightarrow> []);
          unitName =
            (case codeBlock sti of
               Some cb \<Rightarrow>
                 (case getNameMayAllocate (codeBlocks runtime cb) of Some n \<Rightarrow> n | None \<Rightarrow> [])
             | None \<Rightarrow> [])
      in if ownName \<noteq> [] then ownName
         else if unitName \<noteq> [] then unitName
         else ''anonymous'')"

definition frameLocation :: "Runtime \<Rightarrow> StackTraceInfo \<Rightarrow> string" where
  "frameLocation runtime sti =
     (case codeBlock sti of
        None \<Rightarrow> ''native''
      | Some cb \<Rightarrow>
          (let unit = codeBlocks runtime cb;
               module = getRuntimeModule unit;
               debugInfo =
                 (case getDebugSourceLocationsOffset unit of
                    Some offset \<Rightarrow> getLocationForAddress module offset (bytecodeOffset sti)
                  | None \<Rightarrow> None)
           in case debugInfo of
                Some location \<Rightarrow>
                  getFilenameByID module (filenameId location)
                  @ '':'' @ numberToString (sint (line location))
                  @ '':'' @ numberToString (sint (column location))
              | None \<Rightarrow>
                  ''address at ''
                  @ (if getSourceURL module = [] then ''unknown'' else getSourceURL module)
                  @ '':'' @ numberToString (sint (getSegmentID module + 1))
                  @ '':'' @ numberToString (sint (bytecodeOffset sti + getVirtualOffset unit))))"

definition frameText :: "Runtime \<Rightarrow> StackTraceInfo \<Rightarrow> HermesValue option \<Rightarrow> string" where
  "frameText runtime sti snapshot =
     ''    at '' @ frameName runtime sti snapshot @ '' ('' @ frameLocation runtime sti @ '')''"

text \<open>
  The location line of the frame at an absolute index of an error: a line break and the
  text of the frame, from the entry of the trace and the entry of the name snapshot at
  that index and from nothing else of the error.
\<close>

definition snapshotName :: "JSError \<Rightarrow> nat \<Rightarrow> HermesValue option" where
  "snapshotName self i = (case funcNames self of Some names \<Rightarrow> Some (names ! i) | None \<Rightarrow> None)"

definition locationLine :: "Runtime \<Rightarrow> JSError \<Rightarrow> StackTraceInfo list \<Rightarrow> nat \<Rightarrow> string" where
  "locationLine runtime self trace i =
     newline @ frameText runtime (trace ! i) (snapshotName self i)"

text \<open>
  The cache of virtual offsets is sound when each entry is the virtual offset of its code
  block. \<^verbatim>\<open>skippingLine\<close> is the marker of the spec.
\<close>

definition cacheOk :: "Runtime \<Rightarrow> (nat \<Rightarrow> 32 word option) \<Rightarrow> bool" where
  "cacheOk runtime cache =
     (\<forall>cb v. cache cb = Some v \<longrightarrow> v = getVirtualOffset (codeBlocks runtime cb))"





text \<open>
  What the recursion guard protects: the formatting flag and, while it is set, the log of
  hook calls. A property read keeps the guard when no completed read changes either.
\<close>

definition guardView :: "Runtime \<Rightarrow> bool \<times> nat list" where
  "guardView runtime =
     (formattingStackTrace runtime, if formattingStackTrace runtime then callLog runtime else [])"

definition readKeepsGuard :: "PropertyRead \<Rightarrow> bool" where
  "readKeepsGuard get =
     (\<forall>rt a p rt' r. get rt a p = Some (rt', r) \<longrightarrow> guardView rt' = guardView rt)"

section \<open>Example states\<close>

text \<open>
  An object without properties, an object with a \<^verbatim>\<open>name\<close> and a
  \<^verbatim>\<open>message\<close>, a code block without debug information, a runtime whose heap holds
  only empty objects and whose storage requests all succeed, an error that was never
  thrown, and the trace entry of a native frame.
\<close>

definition emptyObject :: JSObject where
  "emptyObject =
     \<lparr>getParent = None, namedProperties = (\<lambda>p. None), capturedError = None, jsError = None,
      callBody = None, toPrimitiveCode = UReturn (StringValue ''[object Object]'')\<rparr>"

definition dataFlags :: DefinePropertyFlags where
  "dataFlags = \<lparr>enumerable = True, writable = True, configurable = True\<rparr>"

definition objectWith :: "string \<Rightarrow> string \<Rightarrow> JSObject" where
  "objectWith n m =
     emptyObject\<lparr>namedProperties :=
       (\<lambda>p. None)(PredefinedName \<mapsto> DataProperty (StringValue n) dataFlags,
                  PredefinedMessage \<mapsto> DataProperty (StringValue m) dataFlags)\<rparr>"

definition emptyCodeBlock :: CodeBlock where
  "emptyCodeBlock =
     \<lparr>getNameMayAllocate = Some [], getDebugSourceLocationsOffset = None, getVirtualOffset = 0,
      getRuntimeModule =
        \<lparr>getDomain = 0, getSegmentID = 0, getSourceURL = [],
         getLocationForAddress = (\<lambda>offset address. None), getFilenameByID = (\<lambda>i. [])\<rparr>\<rparr>"

definition emptyRuntime :: Runtime where
  "emptyRuntime =
     \<lparr>heap = (\<lambda>a. emptyObject), thrownValue = None, formattingStackTrace = False,
      errorConstructor = 0, getStackFrames = [], codeBlocks = (\<lambda>a. emptyCodeBlock),
      allocPlan = [], maxStringLength = 268435456,
      stacktraceTooLong = ''<stack trace too long>'', proxyTrap = ''proxy trap'',
      stackOverflowError = StringValue ''Maximum call stack size exceeded'',
      rangeError = StringValue ''RangeError'', typeError = StringValue ''TypeError'',
      callLog = []\<rparr>"

definition emptyError :: JSError where
  "emptyError =
     \<lparr>stacktrace = None, funcNames = None, domains = None, firstExposedFrameIndex = 0,
      catchable = True\<rparr>"

definition nativeEntry :: StackTraceInfo where
  "nativeEntry = \<lparr>codeBlock = None, bytecodeOffset = 0\<rparr>"

text \<open>
  The four objects of the \<^verbatim>\<open>toString\<close> examples, at 11 to 14, and a plain object
  at 21 whose prototype is the plain object at 20.
\<close>

definition toStringRuntime :: Runtime where
  "toStringRuntime =
     emptyRuntime\<lparr>heap := (\<lambda>a. emptyObject)
        (11 := objectWith [] ''m'', 12 := objectWith ''E'' [], 13 := objectWith ''E'' ''m'',
         14 := objectWith [] [])\<rparr>"

definition plainChainRuntime :: Runtime where
  "plainChainRuntime =
     emptyRuntime\<lparr>heap := (\<lambda>a. emptyObject)(21 := emptyObject\<lparr>getParent := Some 20\<rparr>)\<rparr>"


definition innerFrame :: StackFrame where
  "innerFrame =
     \<lparr>getCalleeClosureOrCBRef =
        CalleeCallable None
          (Some \<lparr>flagAccessor = False, flagProxyObject = False, flagHostObject = False,
                 slotValue = StringValue ''inner''\<rparr>),
      getSavedCodeBlock = Some 7, getSavedIP = Some 12, getCalleeCodeBlock = Some 8\<rparr>"

definition outerFrame :: StackFrame where
  "outerFrame =
     \<lparr>getCalleeClosureOrCBRef = CalleeNativePointer 7,
      getSavedCodeBlock = None, getSavedIP = None, getCalleeCodeBlock = Some 7\<rparr>"

definition captureRuntime :: "bool list \<Rightarrow> Runtime" where
  "captureRuntime plan = emptyRuntime\<lparr>getStackFrames := [innerFrame, outerFrame], allocPlan := plan\<rparr>"

definition capturedTrace :: "StackTraceInfo list" where
  "capturedTrace = [\<lparr>codeBlock = Some 8, bytecodeOffset = 3\<rparr>, \<lparr>codeBlock = Some 7, bytecodeOffset = 12\<rparr>]"






text \<open>
  Objects whose \<^verbatim>\<open>name\<close> getter throws: the string \<^verbatim>\<open>"boom"\<close> at 31, the
  object at 33 (a \<^verbatim>\<open>TypeError\<close> with a message) at 32.
\<close>

definition throwingRuntime :: Runtime where
  "throwingRuntime =
     emptyRuntime\<lparr>heap := (\<lambda>a. emptyObject)
        (31 := emptyObject\<lparr>namedProperties :=
                 (\<lambda>p. None)(PredefinedName \<mapsto>
                    AccessorProperty (UserAccessor (\<lambda>this. UThrow (StringValue ''boom''))))\<rparr>,
         32 := emptyObject\<lparr>namedProperties :=
                 (\<lambda>p. None)(PredefinedName \<mapsto>
                    AccessorProperty (UserAccessor (\<lambda>this. UThrow (ObjectValue 33))))\<rparr>,
         33 := objectWith ''TypeError'' ''bad'')\<rparr>"

text \<open>
  A heap with an error prototype at 40 that holds the \<^verbatim>\<open>stack\<close> accessor, error
  instances at 41, 44 and 46 with a trace of one native frame, an error at 45 that was
  never thrown, plain objects at 47 and 48 that inherit from the errors at 45 and 41, the
  error constructor at 42 and, at 43, the value of its \<^verbatim>\<open>prepareStackTrace\<close>
  property, callable when a hook is given. Then the default string of such an error, a
  hook that throws, a hook that reads the \<^verbatim>\<open>stack\<close> of the error at 44 and returns
  what it has read, a hook that reads the \<^verbatim>\<open>stack\<close> of its own target and returns
  \<^verbatim>\<open>"hooked"\<close> when that read gave the default string, the runtime after a read of
  the \<^verbatim>\<open>stack\<close> of 41 under the second hook, and the runtime after the getter has
  served the object at 48.
\<close>

definition errorPrototype :: JSObject where
  "errorPrototype =
     emptyObject\<lparr>namedProperties :=
       (\<lambda>p. None)(PredefinedStack \<mapsto> AccessorProperty NativeErrorStackAccessor,
                  PredefinedName \<mapsto> DataProperty (StringValue ''Error'') dataFlags,
                  PredefinedMessage \<mapsto> DataProperty (StringValue []) dataFlags)\<rparr>"

definition errorInstance :: "string \<Rightarrow> StackTraceInfo list option \<Rightarrow> JSObject" where
  "errorInstance m trace =
     emptyObject\<lparr>getParent := Some 40,
                 namedProperties :=
                   (\<lambda>p. None)(PredefinedMessage \<mapsto> DataProperty (StringValue m) dataFlags),
                 jsError := Some (emptyError\<lparr>stacktrace := trace\<rparr>)\<rparr>"

definition stackRuntime ::
  "(HermesValue \<Rightarrow> HermesValue \<Rightarrow> HermesValue \<Rightarrow> UserCode) option \<Rightarrow> bool list
   \<Rightarrow> Runtime" where
  "stackRuntime hook plan =
     emptyRuntime\<lparr>heap := (\<lambda>a. emptyObject)
        (40 := errorPrototype,
         41 := errorInstance ''m'' (Some [nativeEntry]),
         42 := emptyObject\<lparr>namedProperties :=
                 (\<lambda>p. None)(PredefinedPrepareStackTrace \<mapsto>
                               DataProperty (ObjectValue 43) dataFlags)\<rparr>,
         43 := emptyObject\<lparr>callBody := hook\<rparr>,
         44 := errorInstance ''inner'' (Some [nativeEntry]),
         45 := errorInstance ''fresh'' None,
         46 := errorInstance ''later'' (Some [nativeEntry]),
         47 := emptyObject\<lparr>getParent := Some 45\<rparr>,
         48 := emptyObject\<lparr>getParent := Some 41\<rparr>),
       errorConstructor := 42, allocPlan := plan\<rparr>"

definition defaultStack :: "string \<Rightarrow> string" where
  "defaultStack m = ''Error: '' @ m @ newline @ ''    at anonymous (native)''"

definition throwingHook :: "HermesValue \<Rightarrow> HermesValue \<Rightarrow> HermesValue \<Rightarrow> UserCode" where
  "throwingHook thisArg target callSites = UThrow (StringValue ''hook failed'')"

definition nestedHook :: "HermesValue \<Rightarrow> HermesValue \<Rightarrow> HermesValue \<Rightarrow> UserCode" where
  "nestedHook thisArg target callSites =
     UGetStack 44 (\<lambda>c. case c of Normal x \<Rightarrow> UReturn x | Abrupt t \<Rightarrow> UThrow t)"

definition selfReadingHook :: "HermesValue \<Rightarrow> HermesValue \<Rightarrow> HermesValue \<Rightarrow> UserCode" where
  "selfReadingHook thisArg target callSites =
     (case target of
        ObjectValue a \<Rightarrow>
          UGetStack a
            (\<lambda>c. case c of
                   Normal x \<Rightarrow>
                     if x = StringValue (defaultStack ''m'') then UReturn (StringValue ''hooked'')
                     else UReturn x
                 | Abrupt t \<Rightarrow> UThrow t)
      | _ \<Rightarrow> UReturn UndefinedValue)"

definition afterNested :: Runtime where
  "afterNested =
     (stackRuntime (Some nestedHook) [])
       \<lparr>heap := (heap (stackRuntime (Some nestedHook) []))
          (44 := (heap (stackRuntime (Some nestedHook) []) 44)\<lparr>namedProperties :=
                   (namedProperties (heap (stackRuntime (Some nestedHook) []) 44))
                     (PredefinedStack \<mapsto> DataProperty (StringValue (defaultStack ''inner''))
                                          getNewNonEnumerableFlags)\<rparr>,
           41 := (heap (stackRuntime (Some nestedHook) []) 41)\<lparr>namedProperties :=
                   (namedProperties (heap (stackRuntime (Some nestedHook) []) 41))
                     (PredefinedStack \<mapsto> DataProperty (StringValue (defaultStack ''inner''))
                                          getNewNonEnumerableFlags)\<rparr>),
        callLog := [43]\<rparr>"

definition afterInherited :: Runtime where
  "afterInherited =
     (stackRuntime None [])
       \<lparr>heap := (heap (stackRuntime None []))
          (48 := (heap (stackRuntime None []) 48)\<lparr>namedProperties :=
                   (namedProperties (heap (stackRuntime None []) 48))
                     (PredefinedStack \<mapsto> DataProperty (StringValue (defaultStack ''m''))
                                          getNewNonEnumerableFlags)\<rparr>)\<rparr>"

section \<open>Properties\<close>

subsection \<open>The property system on plain values\<close>

lemma toString_RJS_string: "toString_RJS get rt (StringValue s) = Some (rt, RETURNED s)"
  by (simp add: toString_RJS_def primitiveToString_def)

lemma getNamed_RJS_data:
  "namedProperties (heap rt a) P = Some (DataProperty v f)
   \<Longrightarrow> getNamed_RJS d g rt a P = Some (rt, RETURNED v)"
  by (simp add: getNamed_RJS.simps getNamedDescriptor.simps)

lemma getErrorFromStackTarget_none:
  "noErrorOnChain hp targetHandle \<Longrightarrow> getErrorFromStackTarget hp targetHandle = Some None"
  by (induction rule: noErrorOnChain.induct) (simp_all add: getErrorFromStackTarget.simps)

subsection \<open>Capture is done once\<close>

text \<open>
  C2. A call of \<^verbatim>\<open>recordStackTrace\<close> on an error whose trace is set returns success
  and changes neither the error (trace, function names, domains and all other fields)
  nor the runtime.
\<close>

theorem recordStackTrace_already_set:
  "stacktrace self \<noteq> None \<Longrightarrow>
   recordStackTrace self runtime skipTopFrame codeBlock' ip = Some (runtime, self, RETURNED ())"
  by (simp add: recordStackTrace_def)

theorem recordStackTrace_already_set_witness:
  "recordStackTrace (emptyError\<lparr>stacktrace := Some [nativeEntry], funcNames := Some [UndefinedValue]\<rparr>)
     emptyRuntime False None 0
   = Some (emptyRuntime,
           emptyError\<lparr>stacktrace := Some [nativeEntry], funcNames := Some [UndefinedValue]\<rparr>,
           RETURNED ())"
proof -
  have h: "stacktrace (emptyError\<lparr>stacktrace := Some [nativeEntry],
                                   funcNames := Some [UndefinedValue]\<rparr>) \<noteq> None"
    by simp
  show ?thesis
    using recordStackTrace_already_set [OF h] by simp
qed

subsection \<open>\<^verbatim>\<open>JSError::toString\<close>\<close>

text \<open>
  C8. \<^verbatim>\<open>JSError::toString\<close> joins the name and the message with \<^verbatim>\<open>": "\<close> and
  collapses an empty part: when the name resolves to the string \<open>nameStr\<close> and the
  message to \<open>msgStr\<close>, the result is \<open>msgStr\<close> if \<open>nameStr\<close> is empty,
  \<open>nameStr\<close> if \<open>msgStr\<close> is empty, and \<open>nameStr @ '': '' @ msgStr\<close> otherwise,
  where the builder for the joined string can be created.
\<close>

theorem JSError_toString_collapses:
  assumes "get runtime O' PredefinedName = Some (rt1, RETURNED name)"
    and "(if name = UndefinedValue then Some (rt1, RETURNED ''Error'')
          else toString_RJS get rt1 name) = Some (rt2, RETURNED nameStr)"
    and "get rt2 O' PredefinedMessage = Some (rt3, RETURNED msg)"
    and "(if msg = UndefinedValue then Some (rt3, RETURNED [])
          else toString_RJS get rt3 msg) = Some (rt4, RETURNED msgStr)"
    and "nameStr \<noteq> [] \<and> msgStr \<noteq> [] \<longrightarrow>
           length nameStr + 2 + length msgStr \<le> maxStringLength rt4
           \<and> length nameStr + 2 + length msgStr < 2 ^ 32"
  shows "JSError_toString get O' runtime =
           Some (rt4, RETURNED (if nameStr = [] then msgStr
                                else if msgStr = [] then nameStr
                                else nameStr @ '': '' @ msgStr))"
proof -
  have "JSError_toString get O' runtime =
          (if length nameStr = 0 then Some (rt4, RETURNED msgStr)
           else if length msgStr = 0 then Some (rt4, RETURNED nameStr)
           else (case createStringBuilder rt4 (length nameStr + 2 + length msgStr) of
                   (rt5, EXCEPTION) \<Rightarrow> Some (rt5, EXCEPTION)
                 | (rt5, RETURNED u) \<Rightarrow> Some (rt5, RETURNED (nameStr @ '': '' @ msgStr))))"
    unfolding JSError_toString_def
    by (simp only: assms(1-4) option.case prod.case CallResult.case)
  then show ?thesis
    using assms(5)
    by (cases "nameStr = []"; cases "msgStr = []") (simp_all add: createStringBuilder_def)
qed

theorem JSError_toString_collapses_witness:
  "JSError_toString (getNamed_RJS 0 False) 11 toStringRuntime = Some (toStringRuntime, RETURNED ''m'')
   \<and> JSError_toString (getNamed_RJS 0 False) 12 toStringRuntime = Some (toStringRuntime, RETURNED ''E'')
   \<and> JSError_toString (getNamed_RJS 0 False) 13 toStringRuntime
       = Some (toStringRuntime, RETURNED ''E: m'')
   \<and> JSError_toString (getNamed_RJS 0 False) 14 toStringRuntime = Some (toStringRuntime, RETURNED [])"
proof -
  have g: "\<And>a n m. heap toStringRuntime a = objectWith n m \<Longrightarrow>
            getNamed_RJS 0 False toStringRuntime a PredefinedName
              = Some (toStringRuntime, RETURNED (StringValue n))
          \<and> getNamed_RJS 0 False toStringRuntime a PredefinedMessage
              = Some (toStringRuntime, RETURNED (StringValue m))"
    by (simp add: getNamed_RJS_data objectWith_def)
  have h: "heap toStringRuntime 11 = objectWith [] ''m''"
      "heap toStringRuntime 12 = objectWith ''E'' []"
      "heap toStringRuntime 13 = objectWith ''E'' ''m''"
      "heap toStringRuntime 14 = objectWith [] []"
    by (simp_all add: toStringRuntime_def)
  have m: "maxStringLength toStringRuntime = 268435456"
    by (simp add: toStringRuntime_def emptyRuntime_def)
  show ?thesis
    using JSError_toString_collapses
            [of "getNamed_RJS 0 False" toStringRuntime 11 toStringRuntime "StringValue []"
                toStringRuntime "[]" toStringRuntime "StringValue ''m''" toStringRuntime "''m''"]
          JSError_toString_collapses
            [of "getNamed_RJS 0 False" toStringRuntime 12 toStringRuntime "StringValue ''E''"
                toStringRuntime "''E''" toStringRuntime "StringValue []" toStringRuntime "[]"]
          JSError_toString_collapses
            [of "getNamed_RJS 0 False" toStringRuntime 13 toStringRuntime "StringValue ''E''"
                toStringRuntime "''E''" toStringRuntime "StringValue ''m''" toStringRuntime "''m''"]
          JSError_toString_collapses
            [of "getNamed_RJS 0 False" toStringRuntime 14 toStringRuntime "StringValue []"
                toStringRuntime "[]" toStringRuntime "StringValue []" toStringRuntime "[]"]
    by (simp add: g [OF h(1)] g [OF h(2)] g [OF h(3)] g [OF h(4)] toString_RJS_string m)
qed

subsection \<open>A receiver without an error\<close>

text \<open>
  C10, as the code has it. For a receiver that is not an object, and for an object on
  whose prototype chain, the receiver included, no object is a \<^verbatim>\<open>JSError\<close> and
  none has the \<^verbatim>\<open>[[CapturedError]]\<close> slot, \<^verbatim>\<open>errorStackGetter\<close> returns
  \<^verbatim>\<open>undefined\<close> and leaves the runtime as it was: nothing is thrown and no property
  is redefined.
\<close>

theorem errorStackGetter_no_error:
  "noErrorOnChain (heap runtime) (dyncastThis_JSObject this)
   \<Longrightarrow> errorStackGetter get depth runtime this = Some (runtime, RETURNED UndefinedValue)"
  by (simp add: errorStackGetter_def getErrorFromStackTarget_none)

theorem errorStackGetter_no_error_witness:
  "errorStackGetter (getNamed_RJS 3) 3 plainChainRuntime (ObjectValue 21)
     = Some (plainChainRuntime, RETURNED UndefinedValue)
   \<and> errorStackGetter (getNamed_RJS 3) 3 plainChainRuntime (StringValue ''receiver'')
     = Some (plainChainRuntime, RETURNED UndefinedValue)"
proof -
  have hp: "heap plainChainRuntime 21 = emptyObject\<lparr>getParent := Some 20\<rparr>"
      "heap plainChainRuntime 20 = emptyObject"
    by (simp_all add: plainChainRuntime_def)
  have c20: "noErrorOnChain (heap plainChainRuntime) (Some 20)"
    by (rule noErrorOnChain_step) (simp_all add: hp emptyObject_def noErrorOnChain_null)
  have c21: "noErrorOnChain (heap plainChainRuntime) (dyncastThis_JSObject (ObjectValue 21))"
    unfolding dyncastThis_JSObject_def HermesValue.case
    by (rule noErrorOnChain_step) (simp_all add: hp emptyObject_def c20)
  have cs: "noErrorOnChain (heap plainChainRuntime)
              (dyncastThis_JSObject (StringValue ''receiver''))"
    by (simp add: dyncastThis_JSObject_def noErrorOnChain_null)
  show ?thesis
    using errorStackGetter_no_error [OF c21] errorStackGetter_no_error [OF cs] by simp
qed

subsection \<open>Storage requests\<close>

lemma allocate_ok:
  "False \<notin> set (take (Suc n) (allocPlan rt)) \<Longrightarrow>
   allocate rt = (rt\<lparr>allocPlan := drop 1 (allocPlan rt)\<rparr>, RETURNED ())"
  by (cases "allocPlan rt") (simp_all add: allocate_def)

lemma allocate_fails:
  "allocPlan rt = False # rest \<Longrightarrow>
   allocate rt = (setThrownValue (rt\<lparr>allocPlan := rest\<rparr>) (rangeError rt), EXCEPTION)"
  by (simp add: allocate_def raiseRangeError_def)

subsection \<open>Frame trimming and the call-site projector\<close>








subsection \<open>The function names of a captured trace\<close>

lemma frameFunctionName_allocPlan [simp]:
  "frameFunctionName (rt\<lparr>allocPlan := p\<rparr>) cf = frameFunctionName rt cf"
  by (simp add: frameFunctionName_def split: CalleeClosureOrCB.splits option.splits)

lemma frameFunctionName_env:
  "codeBlocks rt' = codeBlocks rt \<Longrightarrow> proxyTrap rt' = proxyTrap rt
   \<Longrightarrow> frameFunctionName rt' cf = frameFunctionName rt cf"
  by (simp add: frameFunctionName_def split: CalleeClosureOrCB.splits option.splits)

lemma namesLoop_ok:
  "\<not> skip \<or> (0 < fi \<and> fi + length frames < 2 ^ 32) \<Longrightarrow> frameIndex = of_nat fi \<Longrightarrow>
   unat namesIndex = length names \<Longrightarrow> length names + length frames < 2 ^ 32 \<Longrightarrow>
   False \<notin> set (take (length frames) (allocPlan rt)) \<Longrightarrow>
   namesLoop skip frames frameIndex namesIndex names rt =
     (rt\<lparr>allocPlan := drop (length frames) (allocPlan rt)\<rparr>,
      Some (names @ map (frameFunctionName rt) frames))"
proof (induction frames arbitrary: fi frameIndex namesIndex names rt)
  case Nil
  then show ?case by simp
next
  case (Cons cf frames)
  have noskip: "\<not> (frameIndex = 0 \<and> skip)"
    using Cons.prems(1,2) by (auto simp: of_nat_neq_0)
  have a: "allocate rt = (rt\<lparr>allocPlan := drop 1 (allocPlan rt)\<rparr>, RETURNED ())"
    using Cons.prems(5) by (simp add: allocate_ok)
  have u: "unat (namesIndex + 1) = Suc (length names)"
  proof -
    have "unat namesIndex + unat (1 :: 32 word) < 2 ^ LENGTH(32)"
      using Cons.prems(3,4) by simp
    then have "unat (namesIndex + 1) = unat namesIndex + unat (1 :: 32 word)"
      by (simp only: unat_add_lem)
    then show ?thesis using Cons.prems(3) by simp
  qed
  have r: "PropStorage_resize names rt (unat (namesIndex + 1))
           = (rt\<lparr>allocPlan := drop 1 (allocPlan rt)\<rparr>, RETURNED (names @ [UndefinedValue]))"
    by (simp add: PropStorage_resize_def a u)
  have upd: "(names @ [UndefinedValue])[unat namesIndex := frameFunctionName rt cf]
             = names @ [frameFunctionName rt cf]"
    using Cons.prems(3) by simp
  have p: "False \<notin> set (take (length frames) (allocPlan (rt\<lparr>allocPlan := drop 1 (allocPlan rt)\<rparr>)))"
    using Cons.prems(5) by (cases "allocPlan rt") auto
  have c: "\<not> skip \<or> (0 < Suc fi \<and> Suc fi + length frames < 2 ^ 32)"
    using Cons.prems(1) by auto
  have ih: "namesLoop skip frames (frameIndex + 1) (namesIndex + 1)
              (names @ [frameFunctionName rt cf]) (rt\<lparr>allocPlan := drop 1 (allocPlan rt)\<rparr>)
            = (rt\<lparr>allocPlan := drop (length frames) (drop 1 (allocPlan rt))\<rparr>,
               Some ((names @ [frameFunctionName rt cf]) @ map (frameFunctionName rt) frames))"
    using Cons.IH [OF c, of "frameIndex + 1" "namesIndex + 1" "names @ [frameFunctionName rt cf]"
                     "rt\<lparr>allocPlan := drop 1 (allocPlan rt)\<rparr>"]
          Cons.prems(2,4) u p
    by simp
  show ?case
    using noskip ih by (auto simp: r upd Let_def)
qed

lemma namesLoop_fails:
  "False \<in> set (take (length frames) (allocPlan rt)) \<Longrightarrow>
   \<not> skip \<or> (0 < fi \<and> fi + length frames < 2 ^ 32) \<Longrightarrow> frameIndex = of_nat fi \<Longrightarrow>
   \<exists>rt'. namesLoop skip frames frameIndex namesIndex names rt = (rt', None)
         \<and> thrownValue rt' = None"
proof (induction frames arbitrary: fi frameIndex namesIndex names rt)
  case Nil
  then show ?case by simp
next
  case (Cons cf frames)
  have noskip: "\<not> (frameIndex = 0 \<and> skip)"
    using Cons.prems(2,3) by (auto simp: of_nat_neq_0)
  obtain b bs where plan: "allocPlan rt = b # bs"
    using Cons.prems(1) by (cases "allocPlan rt") auto
  show ?case
  proof (cases b)
    case False
    have "PropStorage_resize names rt (unat (namesIndex + 1))
            = (setThrownValue (rt\<lparr>allocPlan := bs\<rparr>) (rangeError rt), EXCEPTION)"
      using plan False by (simp add: PropStorage_resize_def allocate_fails)
    then show ?thesis
      using noskip by (auto simp: Let_def clearThrownValue_def)
  next
    case True
    have r: "PropStorage_resize names rt (unat (namesIndex + 1))
            = (rt\<lparr>allocPlan := bs\<rparr>,
               RETURNED (take (unat (namesIndex + 1)) names
                         @ replicate (unat (namesIndex + 1) - length names) UndefinedValue))"
      using plan True by (simp add: PropStorage_resize_def allocate_def)
    have p: "False \<in> set (take (length frames) (allocPlan (rt\<lparr>allocPlan := bs\<rparr>)))"
      using Cons.prems(1) plan True by simp
    have c: "\<not> skip \<or> (0 < Suc fi \<and> Suc fi + length frames < 2 ^ 32)"
      using Cons.prems(2) by auto
    have f: "frameIndex + 1 = of_nat (Suc fi)"
      using Cons.prems(3) by simp
    show ?thesis
      using noskip Cons.IH [OF p c f] by (auto simp: r Let_def)
  qed
qed

lemma getCallStackFunctionNames_ok:
  assumes "length (getStackFrames rt) < 2 ^ 32"
    and "False \<notin> set (take (Suc (length (namedFrames rt skip))) (allocPlan rt))"
  shows "getCallStackFunctionNames rt skip hint =
           (rt\<lparr>allocPlan := drop (Suc (length (namedFrames rt skip))) (allocPlan rt)\<rparr>,
            Some (map (frameFunctionName rt) (namedFrames rt skip)))"
proof -
  let ?rt1 = "rt\<lparr>allocPlan := drop 1 (allocPlan rt)\<rparr>"
  have a: "allocate rt = (?rt1, RETURNED ())"
    using assms(2) by (rule allocate_ok)
  have p: "False \<notin> set (take (length (namedFrames rt skip)) (allocPlan ?rt1))"
    using assms(2) by (cases "allocPlan rt") auto
  have l: "namesLoop skip (getStackFrames rt) 0 0 [] ?rt1 =
             (?rt1\<lparr>allocPlan := drop (length (namedFrames rt skip)) (allocPlan ?rt1)\<rparr>,
              Some (map (frameFunctionName rt) (namedFrames rt skip)))"
  proof (cases "skip \<and> getStackFrames rt \<noteq> []")
    case True
    then obtain cf rest where fr: "getStackFrames rt = cf # rest"
      by (cases "getStackFrames rt") auto
    have "namesLoop skip rest (of_nat 1) 0 [] ?rt1 =
            (?rt1\<lparr>allocPlan := drop (length rest) (allocPlan ?rt1)\<rparr>,
             Some ([] @ map (frameFunctionName ?rt1) rest))"
      using assms(1) p True fr
      by (intro namesLoop_ok [where fi = 1]) (simp_all add: namedFrames_def)
    then show ?thesis using True fr by (simp add: namedFrames_def)
  next
    case False
    show ?thesis
    proof (cases skip)
      case True
      with False show ?thesis by (simp add: namedFrames_def)
    next
      case noskip: False
      have "namesLoop skip (getStackFrames rt) (of_nat 0) 0 [] ?rt1 =
            (?rt1\<lparr>allocPlan := drop (length (getStackFrames rt)) (allocPlan ?rt1)\<rparr>,
             Some ([] @ map (frameFunctionName ?rt1) (getStackFrames rt)))"
        using assms(1) p noskip
        by (intro namesLoop_ok [where fi = 0]) (simp_all add: namedFrames_def)
      then show ?thesis using noskip by (simp add: namedFrames_def)
    qed
  qed
  show ?thesis
    using l by (simp add: getCallStackFunctionNames_def PropStorage_create_def a)
qed

lemma getCallStackFunctionNames_fails:
  assumes "length (getStackFrames rt) < 2 ^ 32"
    and "False \<in> set (take (Suc (length (namedFrames rt skip))) (allocPlan rt))"
  shows "\<exists>rt'. getCallStackFunctionNames rt skip hint = (rt', None) \<and> thrownValue rt' = None"
proof -
  obtain b bs where plan: "allocPlan rt = b # bs"
    using assms(2) by (cases "allocPlan rt") auto
  show ?thesis
  proof (cases b)
    case False
    then show ?thesis
      using plan
      by (simp add: getCallStackFunctionNames_def PropStorage_create_def allocate_fails
                    clearThrownValue_def)
  next
    case True
    let ?rt1 = "rt\<lparr>allocPlan := bs\<rparr>"
    have a: "allocate rt = (?rt1, RETURNED ())"
      using plan True by (simp add: allocate_def)
    have p: "False \<in> set (take (length (namedFrames rt skip)) (allocPlan ?rt1))"
      using assms(2) plan True by simp
    have "\<exists>rt'. namesLoop skip (getStackFrames rt) 0 0 [] ?rt1 = (rt', None)
               \<and> thrownValue rt' = None"
    proof (cases "skip \<and> getStackFrames rt \<noteq> []")
      case True
      then obtain cf rest where fr: "getStackFrames rt = cf # rest"
        by (cases "getStackFrames rt") auto
      have "\<exists>rt'. namesLoop skip rest (of_nat 1) 0 [] ?rt1 = (rt', None) \<and> thrownValue rt' = None"
        using assms(1) p True fr
        by (intro namesLoop_fails [where fi = 1]) (simp_all add: namedFrames_def)
      then show ?thesis using True fr by simp
    next
      case False
      show ?thesis
      proof (cases skip)
        case True
        with False p show ?thesis by (simp add: namedFrames_def)
      next
        case noskip: False
        have "\<exists>rt'. namesLoop skip (getStackFrames rt) (of_nat 0) 0 [] ?rt1 = (rt', None)
                    \<and> thrownValue rt' = None"
          using assms(1) p noskip
          by (intro namesLoop_fails [where fi = 0]) (simp_all add: namedFrames_def)
        then show ?thesis by simp
      qed
    qed
    then show ?thesis
      by (simp add: getCallStackFunctionNames_def PropStorage_create_def a)
  qed
qed

lemma allocate_frames:
  "allocate rt = (rt', r) \<Longrightarrow>
   getStackFrames rt' = getStackFrames rt \<and> codeBlocks rt' = codeBlocks rt
     \<and> proxyTrap rt' = proxyTrap rt"
  by (auto simp: allocate_def raiseRangeError_def setThrownValue_def
           split: list.splits if_splits)

lemma addDomain_frames:
  "addDomain d rt cb = (rt', r) \<Longrightarrow>
   getStackFrames rt' = getStackFrames rt \<and> codeBlocks rt' = codeBlocks rt
     \<and> proxyTrap rt' = proxyTrap rt"
  by (auto simp: addDomain_def ArrayStorageSmall_push_back_def Let_def
           split: if_splits prod.splits CallResult.splits dest: allocate_frames)

lemma fillCallStack_frames:
  "fillCallStack frames stack d rt = (rt', RETURNED (stack', d')) \<Longrightarrow>
   getStackFrames rt' = getStackFrames rt \<and> codeBlocks rt' = codeBlocks rt
     \<and> proxyTrap rt' = proxyTrap rt \<and> length stack' = length stack + length frames"
proof (induction frames arbitrary: stack d rt)
  case Nil
  then show ?case by simp
next
  case (Cons cf frames)
  let ?cb = "(case frames of [] \<Rightarrow> getSavedCodeBlock cf
              | prev # outer \<Rightarrow> (case getCalleeCodeBlock prev of
                                   Some parentCB \<Rightarrow> Some parentCB
                                 | None \<Rightarrow> getSavedCodeBlock cf))"
  show ?case
  proof (cases "?cb")
    case None
    then have "fillCallStack frames (stack @ [\<lparr>codeBlock = None, bytecodeOffset = 0\<rparr>]) d rt
                 = (rt', RETURNED (stack', d'))"
      using Cons.prems by (simp add: Let_def)
    from Cons.IH [OF this] show ?thesis by simp
  next
    case (Some cb)
    show ?thesis
    proof (cases "getSavedIP cf")
      case None
      then have "fillCallStack frames (stack @ [\<lparr>codeBlock = None, bytecodeOffset = 0\<rparr>]) d rt
                 = (rt', RETURNED (stack', d'))"
        using Cons.prems Some by (simp add: Let_def)
      from Cons.IH [OF this] show ?thesis by simp
    next
      case off: (Some off)
      obtain rt1 r1 where ad: "addDomain d rt cb = (rt1, r1)" by (cases "addDomain d rt cb")
      then obtain d1 where r1: "r1 = RETURNED d1"
        using Cons.prems Some off by (cases r1) (simp_all add: Let_def)
      have "fillCallStack frames (stack @ [\<lparr>codeBlock = Some cb, bytecodeOffset = off\<rparr>]) d1 rt1
              = (rt', RETURNED (stack', d'))"
        using Cons.prems Some off ad r1 by (simp add: Let_def)
      from Cons.IH [OF this] addDomain_frames [OF ad] show ?thesis by simp
    qed
  qed
qed

lemma topEntry_frames:
  "topEntry skip cb ip d rt = (rt', RETURNED (stack, d')) \<Longrightarrow>
   getStackFrames rt' = getStackFrames rt \<and> codeBlocks rt' = codeBlocks rt
     \<and> proxyTrap rt' = proxyTrap rt \<and> length stack = (if skip then 0 else 1)"
  by (auto simp: topEntry_def split: if_splits option.splits prod.splits CallResult.splits
           dest: addDomain_frames)

lemma captureFrames_frames:
  assumes "captureFrames rt skip cb ip = (rt3, RETURNED (stack1, d2))"
  shows "getStackFrames rt3 = getStackFrames rt \<and> codeBlocks rt3 = codeBlocks rt
         \<and> proxyTrap rt3 = proxyTrap rt
         \<and> length stack1 = (if skip then 0 else 1) + length (getStackFrames rt)"
proof -
  obtain rt1 d0 where c: "ArrayStorageSmall_create rt 1 = (rt1, RETURNED d0)"
    using assms
    by (cases "ArrayStorageSmall_create rt 1")
       (auto simp: captureFrames_def split: CallResult.splits)
  obtain rt2 stack0 d1 where t: "topEntry skip cb ip d0 rt1 = (rt2, RETURNED (stack0, d1))"
    using assms c
    by (cases "topEntry skip cb ip d0 rt1")
       (auto simp: captureFrames_def split: CallResult.splits)
  have f: "fillCallStack (getStackFrames rt2) stack0 d1 rt2 = (rt3, RETURNED (stack1, d2))"
    using assms c t by (simp add: captureFrames_def)
  have "getStackFrames rt1 = getStackFrames rt \<and> codeBlocks rt1 = codeBlocks rt
        \<and> proxyTrap rt1 = proxyTrap rt"
    using c by (auto simp: ArrayStorageSmall_create_def split: prod.splits CallResult.splits
                     dest: allocate_frames)
  then show ?thesis
    using topEntry_frames [OF t] fillCallStack_frames [OF f] by simp
qed

lemma recordStackTrace_capture:
  assumes "stacktrace self = None"
    and "\<not> (\<not> skip \<and> cb = None \<and> getStackFrames rt \<noteq> []
            \<and> getCalleeCodeBlock (hd (getStackFrames rt)) \<noteq> None)"
    and "captureFrames rt skip cb ip = (rt3, RETURNED (stack1, d2))"
    and "stack1 \<noteq> []"
    and "length (getStackFrames rt) < 2 ^ 32"
  shows "length (namedFrames rt3 skip) = length (butlast stack1)"
    and "False \<notin> set (take (Suc (length (butlast stack1))) (allocPlan rt3)) \<Longrightarrow>
         recordStackTrace self rt skip cb ip =
           Some (rt3\<lparr>allocPlan := drop (Suc (length (butlast stack1))) (allocPlan rt3)\<rparr>,
                 self\<lparr>domains := Some d2, stacktrace := Some (butlast stack1),
                      funcNames := Some (map (frameFunctionName rt3) (namedFrames rt3 skip))\<rparr>,
                 RETURNED ())"
    and "False \<in> set (take (Suc (length (butlast stack1))) (allocPlan rt3)) \<Longrightarrow>
         \<exists>rt4. recordStackTrace self rt skip cb ip =
                 Some (rt4, self\<lparr>domains := Some d2, stacktrace := Some (butlast stack1),
                                 funcNames := None\<rparr>, RETURNED ())
               \<and> thrownValue rt4 = None"
proof -
  note fr = captureFrames_frames [OF assms(3)]
  show n: "length (namedFrames rt3 skip) = length (butlast stack1)"
    using fr assms(4) by (cases skip) (auto simp: namedFrames_def)
  have l: "length (getStackFrames rt3) < 2 ^ 32"
    using fr assms(5) by simp
  have unfold: "recordStackTrace self rt skip cb ip =
      (case getCallStackFunctionNames rt3 skip (length (butlast stack1)) of
         (rt4, names) \<Rightarrow>
           Some (rt4, self\<lparr>domains := Some d2, stacktrace := Some (butlast stack1),
                           funcNames := names\<rparr>, RETURNED ()))"
    using assms(1,2,4) by (auto simp: recordStackTrace_def assms(3) Let_def)
  {
    assume "False \<notin> set (take (Suc (length (butlast stack1))) (allocPlan rt3))"
    then have "False \<notin> set (take (Suc (length (namedFrames rt3 skip))) (allocPlan rt3))"
      by (simp add: n)
    from getCallStackFunctionNames_ok [OF l this, of "length (butlast stack1)"]
    show "recordStackTrace self rt skip cb ip =
           Some (rt3\<lparr>allocPlan := drop (Suc (length (butlast stack1))) (allocPlan rt3)\<rparr>,
                 self\<lparr>domains := Some d2, stacktrace := Some (butlast stack1),
                      funcNames := Some (map (frameFunctionName rt3) (namedFrames rt3 skip))\<rparr>,
                 RETURNED ())"
      by (simp add: unfold n)
  }
  {
    assume "False \<in> set (take (Suc (length (butlast stack1))) (allocPlan rt3))"
    then have "False \<in> set (take (Suc (length (namedFrames rt3 skip))) (allocPlan rt3))"
      by (simp add: n)
    from getCallStackFunctionNames_fails [OF l this, of "length (butlast stack1)"]
    show "\<exists>rt4. recordStackTrace self rt skip cb ip =
                 Some (rt4, self\<lparr>domains := Some d2, stacktrace := Some (butlast stack1),
                                 funcNames := None\<rparr>, RETURNED ())
               \<and> thrownValue rt4 = None"
      by (auto simp: unfold)
  }
qed

text \<open>
  C6. A successful \<^verbatim>\<open>recordStackTrace\<close> keeps the function names absent or as many
  as the entries of the trace. When the capture proper has built the trace, a storage
  request that fails while the name list is created or grown is swallowed: the call
  returns success with the trace set, the names absent and no pending exception; when
  all of them succeed the names are there, one per entry of the trace, in the order of
  the frames, innermost first. (The live frames are fewer than \<open>2 ^ 32\<close>, the range
  of the two counters of the name loop.)
\<close>

theorem recordStackTrace_function_names:
  assumes "namesMatchTrace self"
    and "length (getStackFrames rt) < 2 ^ 32"
  shows "(\<forall>rt' self'. recordStackTrace self rt skip cb ip = Some (rt', self', RETURNED ())
            \<longrightarrow> namesMatchTrace self')
       \<and> (\<forall>rt3 stack1 d2.
            stacktrace self = None
            \<and> \<not> (\<not> skip \<and> cb = None \<and> getStackFrames rt \<noteq> []
                   \<and> getCalleeCodeBlock (hd (getStackFrames rt)) \<noteq> None)
            \<and> captureFrames rt skip cb ip = (rt3, RETURNED (stack1, d2)) \<and> stack1 \<noteq> []
            \<longrightarrow>
            (if False \<in> set (take (Suc (length (butlast stack1))) (allocPlan rt3))
             then \<exists>rt4. recordStackTrace self rt skip cb ip =
                     Some (rt4, self\<lparr>domains := Some d2, stacktrace := Some (butlast stack1),
                                     funcNames := None\<rparr>, RETURNED ())
                   \<and> thrownValue rt4 = None
             else \<exists>rt4 names. recordStackTrace self rt skip cb ip =
                     Some (rt4, self\<lparr>domains := Some d2, stacktrace := Some (butlast stack1),
                                     funcNames := Some names\<rparr>, RETURNED ())
                   \<and> length names = length (butlast stack1)
                   \<and> names = map (frameFunctionName rt) (namedFrames rt skip)))"
proof (intro conjI allI impI)
  fix rt' :: Runtime and self'
  assume r: "recordStackTrace self rt skip cb ip = Some (rt', self', RETURNED ())"
  show "namesMatchTrace self'"
  proof (cases "stacktrace self \<noteq> None
                \<or> (\<not> skip \<and> cb = None \<and> getStackFrames rt \<noteq> []
                    \<and> getCalleeCodeBlock (hd (getStackFrames rt)) \<noteq> None)")
    case True
    then have "self' = self"
      using r by (auto simp: recordStackTrace_def Let_def split: if_splits)
    then show ?thesis using assms(1) by simp
  next
    case False
    obtain rt3 r3 where c: "captureFrames rt skip cb ip = (rt3, r3)"
      by (cases "captureFrames rt skip cb ip")
    obtain stack1 d2 where r3: "r3 = RETURNED (stack1, d2)"
      using r False c by (cases r3) (auto simp: recordStackTrace_def Let_def)
    have ne: "stack1 \<noteq> []"
      using r False c r3 by (auto simp: recordStackTrace_def Let_def split: if_splits)
    note cap = recordStackTrace_capture [OF _ _ c [unfolded r3] ne assms(2), of self]
    show ?thesis
    proof (cases "False \<in> set (take (Suc (length (butlast stack1))) (allocPlan rt3))")
      case True
      with cap(3) False r show ?thesis by (auto simp: namesMatchTrace_def)
    next
      case nofail: False
      with cap(1,2) False r show ?thesis by (auto simp: namesMatchTrace_def)
    qed
  qed
next
  fix rt3 :: Runtime and stack1 d2
  assume h: "stacktrace self = None
            \<and> \<not> (\<not> skip \<and> cb = None \<and> getStackFrames rt \<noteq> []
                   \<and> getCalleeCodeBlock (hd (getStackFrames rt)) \<noteq> None)
            \<and> captureFrames rt skip cb ip = (rt3, RETURNED (stack1, d2)) \<and> stack1 \<noteq> []"
  then have h1: "stacktrace self = None"
    and h2: "\<not> (\<not> skip \<and> cb = None \<and> getStackFrames rt \<noteq> []
                   \<and> getCalleeCodeBlock (hd (getStackFrames rt)) \<noteq> None)"
    and h3: "captureFrames rt skip cb ip = (rt3, RETURNED (stack1, d2))"
    and h4: "stack1 \<noteq> []"
    by blast+
  note cap = recordStackTrace_capture [OF h1 h2 h3 h4 assms(2)]
  have same: "namedFrames rt3 skip = namedFrames rt skip"
    using captureFrames_frames [OF h3] by (simp add: namedFrames_def)
  have fn: "map (frameFunctionName rt3) (namedFrames rt skip)
            = map (frameFunctionName rt) (namedFrames rt skip)"
  proof -
    have "\<And>cf. frameFunctionName rt3 cf = frameFunctionName rt cf"
      using captureFrames_frames [OF h3] by (intro frameFunctionName_env) simp_all
    then show ?thesis by simp
  qed
  show "if False \<in> set (take (Suc (length (butlast stack1))) (allocPlan rt3))
        then \<exists>rt4. recordStackTrace self rt skip cb ip =
                     Some (rt4, self\<lparr>domains := Some d2, stacktrace := Some (butlast stack1),
                                     funcNames := None\<rparr>, RETURNED ())
                   \<and> thrownValue rt4 = None
        else \<exists>rt4 names. recordStackTrace self rt skip cb ip =
                     Some (rt4, self\<lparr>domains := Some d2, stacktrace := Some (butlast stack1),
                                     funcNames := Some names\<rparr>, RETURNED ())
                   \<and> length names = length (butlast stack1)
                   \<and> names = map (frameFunctionName rt) (namedFrames rt skip)"
  proof (cases "False \<in> set (take (Suc (length (butlast stack1))) (allocPlan rt3))")
    case True
    from cap(3) [OF True] show ?thesis by (simp only: True if_True)
  next
    case False
    have "recordStackTrace self rt skip cb ip =
            Some (rt3\<lparr>allocPlan := drop (Suc (length (butlast stack1))) (allocPlan rt3)\<rparr>,
                  self\<lparr>domains := Some d2, stacktrace := Some (butlast stack1),
                       funcNames := Some (map (frameFunctionName rt) (namedFrames rt skip))\<rparr>,
                  RETURNED ())"
      using cap(2) [OF False] by (simp only: same fn)
    moreover have "length (map (frameFunctionName rt) (namedFrames rt skip))
                    = length (butlast stack1)"
      using cap(1) by (simp add: same)
    ultimately show ?thesis
      by (simp only: False if_False) blast
  qed
qed

theorem recordStackTrace_function_names_witness:
  "(\<exists>rt4. recordStackTrace emptyError (captureRuntime [True, True, True, False]) False (Some 8) 3
           = Some (rt4, emptyError\<lparr>domains := Some [0], stacktrace := Some capturedTrace,
                                     funcNames := None\<rparr>, RETURNED ())
          \<and> thrownValue rt4 = None)
   \<and> (\<exists>rt4. recordStackTrace emptyError (captureRuntime []) False (Some 8) 3
           = Some (rt4, emptyError\<lparr>domains := Some [0], stacktrace := Some capturedTrace,
                                     funcNames := Some [StringValue ''inner'', StringValue []]\<rparr>,
                   RETURNED ()))"
proof -
  have m: "namesMatchTrace emptyError"
    by (simp add: namesMatchTrace_def emptyError_def)
  have l: "\<And>plan. length (getStackFrames (captureRuntime plan)) < 2 ^ 32"
    by (simp add: captureRuntime_def)
  have c1: "captureFrames (captureRuntime [True, True, True, False]) False (Some 8) 3
            = (captureRuntime [True, False], RETURNED (capturedTrace @ [nativeEntry], [0]))"
    by (simp add: captureFrames_def ArrayStorageSmall_create_def allocate_def topEntry_def
                  addDomain_def ArrayStorageSmall_push_back_def captureRuntime_def
                  emptyRuntime_def emptyCodeBlock_def innerFrame_def outerFrame_def
                  capturedTrace_def nativeEntry_def Let_def)
  have c2: "captureFrames (captureRuntime []) False (Some 8) 3
            = (captureRuntime [], RETURNED (capturedTrace @ [nativeEntry], [0]))"
    by (simp add: captureFrames_def ArrayStorageSmall_create_def allocate_def topEntry_def
                  addDomain_def ArrayStorageSmall_push_back_def captureRuntime_def
                  emptyRuntime_def emptyCodeBlock_def innerFrame_def outerFrame_def
                  capturedTrace_def nativeEntry_def Let_def)
  have n: "map (frameFunctionName (captureRuntime [])) (namedFrames (captureRuntime []) False)
           = [StringValue ''inner'', StringValue []]"
    by (simp add: namedFrames_def captureRuntime_def frameFunctionName_def innerFrame_def
                  outerFrame_def emptyRuntime_def emptyCodeBlock_def)
  have e: "stacktrace emptyError = None"
    by (simp add: emptyError_def)
  note fails = recordStackTrace_function_names [OF m l, of "[True, True, True, False]" False "Some 8" 3,
                   THEN conjunct2, rule_format,
                   of "captureRuntime [True, False]" "capturedTrace @ [nativeEntry]" "[0]"]
  note works = recordStackTrace_function_names [OF m l, of "[]" False "Some 8" 3, THEN conjunct2, rule_format,
                   of "captureRuntime []" "capturedTrace @ [nativeEntry]" "[0]"]
  have f: "\<exists>rt4. recordStackTrace emptyError (captureRuntime [True, True, True, False]) False
                   (Some 8) 3
           = Some (rt4, emptyError\<lparr>domains := Some [0], stacktrace := Some capturedTrace,
                                     funcNames := None\<rparr>, RETURNED ())
          \<and> thrownValue rt4 = None"
    using fails e c1 by (simp add: captureRuntime_def capturedTrace_def)
  have w: "\<exists>rt4. recordStackTrace emptyError (captureRuntime []) False (Some 8) 3
           = Some (rt4, emptyError\<lparr>domains := Some [0], stacktrace := Some capturedTrace,
                                     funcNames := Some [StringValue ''inner'', StringValue []]\<rparr>,
                   RETURNED ())"
    using works e c2 n by (simp add: captureRuntime_def capturedTrace_def)
  show ?thesis
    using f w by simp
qed

subsection \<open>Default string synthesis: the frames\<close>

lemma getFunctionNameAtIndex_frameName:
  assumes "stacktrace self = Some trace" and "i < length trace"
    and "getFunctionNameAtIndex rt self i = Some r"
  shows "(case r of None \<Rightarrow> ''anonymous'' | Some n \<Rightarrow> n)
         = frameName rt (trace ! i) (snapshotName self i)
         \<and> (r \<noteq> Some [])"
  using assms
  by (auto simp: getFunctionNameAtIndex_def frameName_def snapshotName_def Let_def
           split: option.splits if_splits HermesValue.splits)

lemma appendFrame_line:
  assumes "stacktrace self = Some trace" and "i < length trace"
    and "getFunctionNameAtIndex rt self i \<noteq> None"
    and "cacheOk rt cache"
  shows "\<exists>cache'. appendFrame rt self cache i stack
                     = Some (stack @ locationLine rt self trace i, cache')
                   \<and> cacheOk rt cache'"
proof -
  obtain r where r: "getFunctionNameAtIndex rt self i = Some r"
    using assms(3) by blast
  note n = getFunctionNameAtIndex_frameName [OF assms(1,2) r]
  show ?thesis
    using assms(1,2,4) r n
    by (cases r)
       (auto simp: appendFrame_def appendFunctionNameAtIndex_def locationLine_def frameText_def
                   frameLocation_def getDebugInfo_def Let_def cacheOk_def
             split: option.splits)
qed

lemma appendFrame_returns:
  assumes "appendFrame rt self cache i stack = Some (stack', cache')"
    and "cacheOk rt cache"
  shows "\<exists>line1. stack' = stack @ line1 \<and> cacheOk rt cache'"
proof -
  obtain trace where tr: "stacktrace self = Some trace" and i: "i < length trace"
    using assms(1) by (auto simp: appendFrame_def split: option.splits if_splits)
  have "getFunctionNameAtIndex rt self i \<noteq> None"
    using assms(1) tr i
    by (auto simp: appendFrame_def appendFunctionNameAtIndex_def Let_def split: option.splits)
  from appendFrame_line [OF tr i this assms(2), of stack] assms(1)
  show ?thesis by auto
qed



lemma cacheOk_empty: "cacheOk rt Map.empty"
  by (simp add: cacheOk_def)
















subsection \<open>Default string synthesis: the description of the target\<close>

lemma appendFrames_extends:
  "cacheOk rt cache \<Longrightarrow> appendFrames rt self max' cache index stack = Some s \<Longrightarrow>
   \<exists>rest. s = stack @ rest"
proof (induction "max' - index" arbitrary: index stack cache rule: less_induct)
  case less
  show ?case
  proof (cases "index < max'")
    case False
    then show ?thesis
      using less.prems(2) by (subst (asm) appendFrames.simps) simp
  next
    case True
    show ?thesis
    proof (cases "max' > PRINT_HEAD + PRINT_TAIL \<and> index = PRINT_HEAD")
      case marker: True
      then have "appendFrames rt self max' cache (index + 1)
                   (stack @ newline @ ''    ... skipping ''
                    @ numberToString (int (max' - PRINT_HEAD - PRINT_TAIL)) @ '' frames'') = Some s"
        using less.prems(2) True by (subst (asm) appendFrames.simps) simp
      moreover have "max' - (index + 1) < max' - index"
        using True by simp
      ultimately obtain rest where "s = (stack @ newline @ ''    ... skipping ''
                    @ numberToString (int (max' - PRINT_HEAD - PRINT_TAIL)) @ '' frames'') @ rest"
        using less.hyps [OF _ less.prems(1)] by blast
      then have "s = stack @ ((newline @ ''    ... skipping ''
                    @ numberToString (int (max' - PRINT_HEAD - PRINT_TAIL)) @ '' frames'') @ rest)"
        by (simp only: append_assoc)
      then show ?thesis by (rule exI)
    next
      case False
      define index1 where "index1 = (if max' > PRINT_HEAD + PRINT_TAIL \<and> index > PRINT_HEAD
                      \<and> index < max' - PRINT_TAIL then max' - PRINT_TAIL else index)"
      have i1: "index1 < max'" "index \<le> index1"
        using True by (auto simp: index1_def PRINT_HEAD_def PRINT_TAIL_def)
      obtain stack1 cache1 where
        f: "appendFrame rt self cache (index1 + firstExposedFrameIndex self) stack
            = Some (stack1, cache1)"
        and r: "appendFrames rt self max' cache1 (index1 + 1) stack1 = Some s"
        using less.prems(2) True False
        by (subst (asm) appendFrames.simps)
           (auto simp: index1_def Let_def split: option.splits if_splits)
      from appendFrame_returns [OF f less.prems(1)]
      obtain line1 where s1: "stack1 = stack @ line1" and c1: "cacheOk rt cache1"
        by blast
      have "max' - (index1 + 1) < max' - index"
        using i1 by simp
      from less.hyps [OF this c1 r]
      obtain rest where "s = stack1 @ rest" by blast
      then have "s = stack @ (line1 @ rest)"
        using s1 by (simp only: append_assoc)
      then show ?thesis by (rule exI)
    qed
  qed
qed

lemma constructStackTraceString_extends:
  assumes "constructStackTraceString_RJS get depth rt self targetHandle stack
             = Some (rt', RETURNED s)"
  shows "\<exists>header rest. appendErrorDescription get rt targetHandle stack
                          = Some (rt', RETURNED header) \<and> s = header @ rest"
proof -
  obtain header and trace :: "StackTraceInfo list" where
    h: "appendErrorDescription get rt targetHandle stack = Some (rt', RETURNED header)"
    and l: "appendFrames rt' self (size_t_sub (length trace) (firstExposedFrameIndex self))
              Map.empty 0 header = Some s"
    using assms
    by (auto simp: constructStackTraceString_RJS_def raiseStackOverflow_def
             split: if_splits option.splits CallResult.splits)
  from appendFrames_extends [OF cacheOk_empty l] h show ?thesis by blast
qed

text \<open>
  C5, as the code has it. Let \<^verbatim>\<open>JSError::toString\<close> of the target throw. If the thrown
  value is uncatchable, the failure leaves formatting as it is. If it is a catchable object
  whose own \<^verbatim>\<open>JSError::toString\<close> returns \<open>str\<close>, the description is
  \<^verbatim>\<open>"<while converting error to string: "\<close>, \<open>str\<close>, \<^verbatim>\<open>">"\<close>. If that second
  call throws, an uncatchable value propagates and any other is cleared and replaced by
  \<^verbatim>\<open>"<error>"\<close>. If the thrown value is catchable and not an object, it is cleared
  and the description is \<^verbatim>\<open>"<error>"\<close>. The synthesized string begins with the
  description.
\<close>

theorem appendErrorDescription_failures:
  assumes "JSError_toString get targetHandle rt = Some (rt1, EXCEPTION)"
  shows "(isUncatchableThrown rt1 \<longrightarrow>
            appendErrorDescription get rt targetHandle stack = Some (rt1, EXCEPTION)
            \<and> (0 < depth \<longrightarrow>
                 constructStackTraceString_RJS get depth rt self targetHandle stack
                   = Some (rt1, EXCEPTION)))
       \<and> (\<forall>v rt2 str.
            \<not> isUncatchableThrown rt1 \<and> thrownValue rt1 = Some (ObjectValue v)
            \<and> JSError_toString get v (clearThrownValue rt1) = Some (rt2, RETURNED str) \<longrightarrow>
            appendErrorDescription get rt targetHandle stack
              = Some (rt2, RETURNED (stack @ ''<while converting error to string: '' @ str @ ''>'')))
       \<and> (\<forall>v rt2.
            \<not> isUncatchableThrown rt1 \<and> thrownValue rt1 = Some (ObjectValue v)
            \<and> JSError_toString get v (clearThrownValue rt1) = Some (rt2, EXCEPTION) \<longrightarrow>
            appendErrorDescription get rt targetHandle stack
              = (if isUncatchableThrown rt2 then Some (rt2, EXCEPTION)
                 else Some (clearThrownValue rt2, RETURNED (stack @ ''<error>''))))
       \<and> (\<not> isUncatchableThrown rt1 \<and> (\<forall>v. thrownValue rt1 = Some v \<longrightarrow> \<not> isObject v) \<longrightarrow>
            appendErrorDescription get rt targetHandle stack
              = Some (clearThrownValue rt1, RETURNED (stack @ ''<error>'')))
       \<and> (\<forall>rt' s.
            constructStackTraceString_RJS get depth rt self targetHandle stack
              = Some (rt', RETURNED s) \<longrightarrow>
            (\<exists>header rest.
               appendErrorDescription get rt targetHandle stack = Some (rt', RETURNED header)
               \<and> s = header @ rest))"
proof (intro conjI allI impI)
  assume u: "isUncatchableThrown rt1"
  show a: "appendErrorDescription get rt targetHandle stack = Some (rt1, EXCEPTION)"
    using assms u by (simp add: appendErrorDescription_def)
  assume "0 < depth"
  then show "constructStackTraceString_RJS get depth rt self targetHandle stack
               = Some (rt1, EXCEPTION)"
    by (simp add: constructStackTraceString_RJS_def a)
next
  fix v rt2 str
  assume "\<not> isUncatchableThrown rt1 \<and> thrownValue rt1 = Some (ObjectValue v)
          \<and> JSError_toString get v (clearThrownValue rt1) = Some (rt2, RETURNED str)"
  then show "appendErrorDescription get rt targetHandle stack
              = Some (rt2, RETURNED (stack @ ''<while converting error to string: '' @ str @ ''>''))"
    using assms by (simp add: appendErrorDescription_def isObject_def)
next
  fix v rt2
  assume "\<not> isUncatchableThrown rt1 \<and> thrownValue rt1 = Some (ObjectValue v)
          \<and> JSError_toString get v (clearThrownValue rt1) = Some (rt2, EXCEPTION)"
  then show "appendErrorDescription get rt targetHandle stack
              = (if isUncatchableThrown rt2 then Some (rt2, EXCEPTION)
                 else Some (clearThrownValue rt2, RETURNED (stack @ ''<error>'')))"
    using assms by (simp add: appendErrorDescription_def isObject_def)
next
  assume h: "\<not> isUncatchableThrown rt1 \<and> (\<forall>v. thrownValue rt1 = Some v \<longrightarrow> \<not> isObject v)"
  then have "(case thrownValue rt1 of
                Some thrown \<Rightarrow>
                  if isObject thrown
                  then (case thrown of
                          ObjectValue thrownObject \<Rightarrow>
                            JSError_toString get thrownObject (clearThrownValue rt1)
                        | _ \<Rightarrow> Some (clearThrownValue rt1, RETURNED ''Error''))
                  else Some (rt1, EXCEPTION)
              | None \<Rightarrow> Some (rt1, EXCEPTION)) = Some (rt1, EXCEPTION)"
    by (auto split: option.splits)
  then show "appendErrorDescription get rt targetHandle stack
              = Some (clearThrownValue rt1, RETURNED (stack @ ''<error>''))"
    using assms h by (simp add: appendErrorDescription_def)
next
  fix rt' s
  assume "constructStackTraceString_RJS get depth rt self targetHandle stack
              = Some (rt', RETURNED s)"
  then show "\<exists>header rest.
               appendErrorDescription get rt targetHandle stack = Some (rt', RETURNED header)
               \<and> s = header @ rest"
    by (rule constructStackTraceString_extends)
qed

lemma throwingRuntime_heap:
  "heap throwingRuntime 31 = emptyObject\<lparr>namedProperties :=
                 (\<lambda>p. None)(PredefinedName \<mapsto>
                    AccessorProperty (UserAccessor (\<lambda>this. UThrow (StringValue ''boom''))))\<rparr>"
  "heap throwingRuntime 32 = emptyObject\<lparr>namedProperties :=
                 (\<lambda>p. None)(PredefinedName \<mapsto>
                    AccessorProperty (UserAccessor (\<lambda>this. UThrow (ObjectValue 33))))\<rparr>"
  "heap throwingRuntime 33 = objectWith ''TypeError'' ''bad''"
  by (simp_all add: throwingRuntime_def)

lemma throwingRuntime_fields:
  "thrownValue throwingRuntime = None" "maxStringLength throwingRuntime = 268435456"
  by (simp_all add: throwingRuntime_def emptyRuntime_def)

lemma getNamed_RJS_throwing:
  "namedProperties (heap rt a) P = Some (AccessorProperty (UserAccessor (\<lambda>this. UThrow v)))
   \<Longrightarrow> 0 < usableDepth g d
   \<Longrightarrow> getNamed_RJS d g rt a P = Some (setThrownValue rt v, EXCEPTION)"
  by (simp add: getNamed_RJS.simps getNamedDescriptor.simps)

lemma throwingRuntime_toString_31:
  "JSError_toString (getNamed_RJS 3 True) 31 throwingRuntime
     = Some (setThrownValue throwingRuntime (StringValue ''boom''), EXCEPTION)"
  by (simp add: JSError_toString_def getNamed_RJS_throwing throwingRuntime_heap usableDepth_def)

lemma throwingRuntime_toString_32:
  "JSError_toString (getNamed_RJS 3 True) 32 throwingRuntime
     = Some (setThrownValue throwingRuntime (ObjectValue 33), EXCEPTION)"
  by (simp add: JSError_toString_def getNamed_RJS_throwing throwingRuntime_heap usableDepth_def)

lemma clearThrownValue_setThrownValue: "thrownValue rt = None \<Longrightarrow> clearThrownValue (setThrownValue rt v) = rt"
  by (simp add: clearThrownValue_def setThrownValue_def)

lemma throwingRuntime_toString_33:
  "JSError_toString (getNamed_RJS 3 True) 33 throwingRuntime
     = Some (throwingRuntime, RETURNED ''TypeError: bad'')"
  by (simp add: JSError_toString_def getNamed_RJS_data throwingRuntime_heap objectWith_def
                toString_RJS_string createStringBuilder_def throwingRuntime_fields)

theorem appendErrorDescription_failures_witness:
  "appendErrorDescription (getNamed_RJS 3 True) throwingRuntime 32 []
     = Some (throwingRuntime, RETURNED ''<while converting error to string: TypeError: bad>'')"
proof -
  let ?rt1 = "setThrownValue throwingRuntime (ObjectValue 33)"
  have u: "\<not> isUncatchableThrown ?rt1"
    by (simp add: isUncatchableThrown_def isUncatchableError_def setThrownValue_def
                  throwingRuntime_heap objectWith_def emptyObject_def)
  have t: "thrownValue ?rt1 = Some (ObjectValue 33)"
    by (simp add: setThrownValue_def)
  have c: "clearThrownValue ?rt1 = throwingRuntime"
    by (simp add: clearThrownValue_setThrownValue throwingRuntime_fields)
  show ?thesis
    using appendErrorDescription_failures [OF throwingRuntime_toString_32, THEN conjunct2, THEN conjunct1, rule_format,
              of 33 throwingRuntime "''TypeError: bad''" "[]"]
          u t c throwingRuntime_toString_33
    by simp
qed

text \<open>
  C5, as the claim states it, fails where the thrown value is not an object: a
  \<^verbatim>\<open>name\<close> getter that throws the string \<^verbatim>\<open>"boom"\<close> makes
  \<^verbatim>\<open>JSError::toString\<close> throw a catchable value, and the synthesized string is
  \<^verbatim>\<open>"<error>"\<close>, which does not begin with
  \<^verbatim>\<open>"<while converting error to string: "\<close>.
\<close>

theorem thrown_primitive_counterexample:
  "JSError_toString (getNamed_RJS 3 True) 31 throwingRuntime
     = Some (setThrownValue throwingRuntime (StringValue ''boom''), EXCEPTION)
   \<and> \<not> isUncatchableError (setThrownValue throwingRuntime (StringValue ''boom''))
          (StringValue ''boom'')
   \<and> constructStackTraceString_RJS (getNamed_RJS 3 True) 3 throwingRuntime
        (emptyError\<lparr>stacktrace := Some []\<rparr>) 31 []
     = Some (throwingRuntime, RETURNED ''<error>'')
   \<and> take 35 ''<error>'' \<noteq> ''<while converting error to string: ''"
proof -
  have d: "appendErrorDescription (getNamed_RJS 3 True) throwingRuntime 31 []
           = Some (throwingRuntime, RETURNED ''<error>'')"
    by (simp add: appendErrorDescription_def throwingRuntime_toString_31 isUncatchableThrown_def
                  isUncatchableError_def setThrownValue_def clearThrownValue_def
                  throwingRuntime_fields isObject_def)
  have "constructStackTraceString_RJS (getNamed_RJS 3 True) 3 throwingRuntime
          (emptyError\<lparr>stacktrace := Some []\<rparr>) 31 []
        = Some (throwingRuntime, RETURNED ''<error>'')"
    by (simp add: constructStackTraceString_RJS_def d size_t_sub_def emptyError_def
                  appendFrames.simps)
  then show ?thesis
    by (simp add: throwingRuntime_toString_31 isUncatchableError_def)
qed

subsection \<open>The \<^verbatim>\<open>stack\<close> accessor: evaluation on the example heap\<close>

lemmas stackRuntime_defs =
  stackRuntime_def emptyRuntime_def errorPrototype_def errorInstance_def emptyObject_def
  emptyError_def nativeEntry_def dataFlags_def

lemma getNamed_RJS_native:
  "getNamedDescriptor (heap rt) P (Some a) = Some (Some (AccessorProperty NativeErrorStackAccessor))
   \<Longrightarrow> 0 < usableDepth g d
   \<Longrightarrow> getNamed_RJS d g rt a P
       = errorStackGetter (getNamed_RJS (d - 1)) (d - 1) rt (ObjectValue a)"
  by (simp add: getNamed_RJS.simps)

lemma getNamed_RJS_found:
  "getNamedDescriptor (heap rt) P (Some a) = Some (Some (DataProperty v f))
   \<Longrightarrow> getNamed_RJS d g rt a P = Some (rt, RETURNED v)"
  by (simp add: getNamed_RJS.simps)

lemmas read_defs =
  getNamedDescriptor.simps getErrorFromStackTarget.simps
  errorStackGetter_def formatStackTrace_def formatWithDefaultString_def
  formatWithPrepareStackTrace_def constructStackTraceString_RJS_def appendErrorDescription_def
  JSError_toString_def toString_RJS_def primitiveToString_def createStringBuilder_def
  StringPrimitive_create_def defineOwnProperty_def allocate_def dyn_vmcast_Callable_def
  dyncastThis_JSObject_def executeCall2_def constructCallSitesArray_def JSArray_create_def
  JSCallSite_create_def callSitesLoop.simps size_t_sub_def appendFrames.simps appendFrame_def
  appendFunctionNameAtIndex_def getFunctionNameAtIndex_def PRINT_HEAD_def PRINT_TAIL_def
  raiseRangeError_def raiseStackOverflow_def setThrownValue_def clearThrownValue_def
  isUncatchableThrown_def isUncatchableError_def getNewNonEnumerableFlags_def Let_def
  newline_def getNamed_RJS_native getNamed_RJS_found defaultStack_def usableDepth_def
  kDepthAdjustment_def isObject_def

lemma found41:
  "getErrorFromStackTarget (heap (stackRuntime hook plan)) (Some 41) = Some (Some 41)"
  "jsError (heap (stackRuntime hook plan) 41) = Some (emptyError\<lparr>stacktrace := Some [nativeEntry]\<rparr>)"
  "getErrorFromStackTarget (heap (stackRuntime hook plan)) (Some 45) = Some (Some 45)"
  "jsError (heap (stackRuntime hook plan) 45) = Some (emptyError\<lparr>stacktrace := None\<rparr>)"
  by (simp_all add: getErrorFromStackTarget.simps stackRuntime_defs)

lemma getter41_default:
  "errorStackGetter (getNamed_RJS 2) 2 (stackRuntime None []) (ObjectValue 41)
   = Some ((stackRuntime None [])\<lparr>heap := (heap (stackRuntime None []))
              (41 := (heap (stackRuntime None []) 41)\<lparr>namedProperties :=
                 (namedProperties (heap (stackRuntime None []) 41))
                   (PredefinedStack \<mapsto> DataProperty (StringValue (defaultStack ''m''))
                                        getNewNonEnumerableFlags)\<rparr>)\<rparr>,
           RETURNED (StringValue (defaultStack ''m'')))"
  by (simp add: read_defs stackRuntime_defs)

lemma format41_default:
  "formatStackTrace (getNamed_RJS 2 True) 2 (stackRuntime None plan) 41
     (emptyError\<lparr>stacktrace := Some [nativeEntry]\<rparr>) 41
   = Some (stackRuntime None plan, RETURNED (StringValue (defaultStack ''m'')))"
  by (simp add: read_defs stackRuntime_defs)

lemma read41_nested:
  "getNamed_RJS 5 False (stackRuntime (Some nestedHook) []) 41 PredefinedStack
   = Some (afterNested, RETURNED (StringValue (defaultStack ''inner'')))"
  by (simp add: read_defs stackRuntime_defs nestedHook_def afterNested_def)

lemma read46_later:
  "\<exists>rt2. getNamed_RJS 5 False afterNested 46 PredefinedStack
           = Some (rt2, RETURNED (StringValue (defaultStack ''inner'')))
         \<and> callLog rt2 = [43, 43]"
  by (simp add: read_defs stackRuntime_defs nestedHook_def afterNested_def)

text \<open>
  The depth reducer of the getter: a read of \<^verbatim>\<open>stack\<close> that takes the last level of
  depth that ordinary code may use enters the getter where ordinary code has none left,
  and the getter still formats and stores the string, with the reserve.
\<close>

lemma getter41_reserve:
  "usableDepth False (kDepthAdjustment + 1) = 1
   \<and> usableDepth False kDepthAdjustment = 0
   \<and> getNamed_RJS (kDepthAdjustment + 1) False (stackRuntime None []) 41 PredefinedStack
       = errorStackGetter (getNamed_RJS kDepthAdjustment) kDepthAdjustment
           (stackRuntime None []) (ObjectValue 41)
   \<and> errorStackGetter (getNamed_RJS kDepthAdjustment) kDepthAdjustment
         (stackRuntime None []) (ObjectValue 41)
       = Some ((stackRuntime None [])\<lparr>heap := (heap (stackRuntime None []))
                  (41 := (heap (stackRuntime None []) 41)\<lparr>namedProperties :=
                     (namedProperties (heap (stackRuntime None []) 41))
                       (PredefinedStack \<mapsto> DataProperty (StringValue (defaultStack ''m''))
                                            getNewNonEnumerableFlags)\<rparr>)\<rparr>,
               RETURNED (StringValue (defaultStack ''m'')))"
  by (simp add: read_defs stackRuntime_defs)

text \<open>
  A hook that reads the \<^verbatim>\<open>stack\<close> of its own target: the nested read returns the
  default string and stores it, and the read around it then stores the value of the
  hook in its place. When the write-back of the read around it fails, the value that the
  nested read has stored stays.
\<close>

lemma read41_self_reading:
  "\<exists>rt'. getNamed_RJS 5 False (stackRuntime (Some selfReadingHook) []) 41 PredefinedStack
            = Some (rt', RETURNED (StringValue ''hooked''))
          \<and> namedProperties (heap rt' 41) PredefinedStack
              = Some (DataProperty (StringValue ''hooked'') getNewNonEnumerableFlags)
          \<and> callLog rt' = [43]"
  by (simp add: read_defs stackRuntime_defs selfReadingHook_def)

lemma read41_self_reading_fails:
  "\<exists>rt'. getNamed_RJS 5 False (stackRuntime (Some selfReadingHook) [True, True, True, False])
            41 PredefinedStack
            = Some (rt', EXCEPTION)
          \<and> namedProperties (heap rt' 41) PredefinedStack
              = Some (DataProperty (StringValue (defaultStack ''m'')) getNewNonEnumerableFlags)"
  by (simp add: read_defs stackRuntime_defs selfReadingHook_def)

text \<open>
  C10, as the claim states it, fails where the receiver is not a \<^verbatim>\<open>JSError\<close> and has
  no \<^verbatim>\<open>[[CapturedError]]\<close> slot on its chain, but inherits from a \<^verbatim>\<open>JSError\<close>: the
  test for a \<^verbatim>\<open>JSError\<close> is made for every object of the chain, so the receiver is
  served by that error. The plain object at 48 inherits from the error at 41: the getter
  returns the default string, not \<^verbatim>\<open>undefined\<close>, and defines \<^verbatim>\<open>stack\<close> on the
  receiver. The plain object at 47 inherits from the error at 45, which was never thrown:
  the getter returns the empty string.
\<close>

theorem inherited_error_counterexample:
  "jsError (heap (stackRuntime None []) 48) = None
   \<and> capturedError (heap (stackRuntime None []) 48) = None
   \<and> getParent (heap (stackRuntime None []) 48) = Some 41
   \<and> capturedError (heap (stackRuntime None []) 41) = None
   \<and> getParent (heap (stackRuntime None []) 41) = Some 40
   \<and> capturedError (heap (stackRuntime None []) 40) = None
   \<and> getParent (heap (stackRuntime None []) 40) = None
   \<and> namedProperties (heap (stackRuntime None []) 48) PredefinedStack = None
   \<and> errorStackGetter (getNamed_RJS 2) 2 (stackRuntime None []) (ObjectValue 48)
       = Some (afterInherited, RETURNED (StringValue (defaultStack ''m'')))
   \<and> namedProperties (heap afterInherited 48) PredefinedStack
       = Some (DataProperty (StringValue (defaultStack ''m'')) getNewNonEnumerableFlags)
   \<and> jsError (heap (stackRuntime None []) 47) = None
   \<and> errorStackGetter (getNamed_RJS 2) 2 (stackRuntime None []) (ObjectValue 47)
       = Some (stackRuntime None [], RETURNED (StringValue []))"
  by (simp add: read_defs stackRuntime_defs afterInherited_def)

subsection \<open>The \<^verbatim>\<open>stack\<close> accessor: write-back and memoization\<close>

lemma errorStackGetter_traced:
  assumes "getErrorFromStackTarget (heap rt) (Some target) = Some (Some eh)"
    and "jsError (heap rt eh) = Some self"
    and "stacktrace self \<noteq> None"
  shows "errorStackGetter get d rt (ObjectValue target) =
           (case formatStackTrace (get True) d rt eh self target of
              None \<Rightarrow> None
            | Some (rt1, EXCEPTION) \<Rightarrow> Some (rt1, EXCEPTION)
            | Some (rt1, RETURNED v) \<Rightarrow>
                (case defineOwnProperty target rt1 PredefinedStack getNewNonEnumerableFlags v of
                   (rt2, EXCEPTION) \<Rightarrow> Some (rt2, EXCEPTION)
                 | (rt2, RETURNED ok) \<Rightarrow> Some (rt2, RETURNED v)))"
  using assms by (auto simp: errorStackGetter_def dyncastThis_JSObject_def usableDepth_def)

lemma defineOwnProperty_fails:
  "take 1 (allocPlan rt) = [False] \<Longrightarrow>
   \<exists>rt2. defineOwnProperty h rt P dpf v = (rt2, EXCEPTION) \<and> heap rt2 = heap rt
         \<and> thrownValue rt2 \<noteq> None"
  by (cases "allocPlan rt")
     (auto simp: defineOwnProperty_def allocate_def raiseRangeError_def setThrownValue_def)

lemma defineOwnProperty_stores:
  "take 1 (allocPlan rt) \<noteq> [False] \<Longrightarrow>
   \<exists>rt2. defineOwnProperty h rt P dpf v = (rt2, RETURNED True)
         \<and> namedProperties (heap rt2 h) P = Some (DataProperty v dpf)"
  by (cases "allocPlan rt") (auto simp: defineOwnProperty_def allocate_def)

lemma defineOwnProperty_heap:
  "defineOwnProperty h rt P dpf v = (rt2, EXCEPTION) \<Longrightarrow> heap rt2 = heap rt"
  by (cases "allocPlan rt")
     (auto simp: defineOwnProperty_def allocate_def raiseRangeError_def setThrownValue_def
           split: if_splits)

text \<open>
  C9, as the code has it. For an error on which no trace was captured,
  \<^verbatim>\<open>errorStackGetter\<close> returns the empty string and leaves the runtime as it was:
  nothing is thrown and no write-back is made, so the property stays what it is. For an
  error with a trace whose formatting has produced a value, the getter writes the value
  back. When the write-back succeeds, the getter returns the value and the
  \<^verbatim>\<open>stack\<close> property of the receiver is that value, stored plainly with the
  non-enumerable flags. When it fails, the getter returns the exception and every object
  is as formatting left it; if the lookup of \<^verbatim>\<open>stack\<close> on the receiver still found
  the accessor when formatting ended, the next read calls the getter again.
\<close>

theorem errorStackGetter_write_back:
  assumes "getErrorFromStackTarget (heap rt) (Some target) = Some (Some eh)"
    and "jsError (heap rt eh) = Some self"
  shows "(stacktrace self = None \<longrightarrow>
            errorStackGetter get d rt (ObjectValue target) = Some (rt, RETURNED (StringValue [])))
       \<and> (\<forall>rt1 v.
            stacktrace self \<noteq> None
            \<and> formatStackTrace (get True) d rt eh self target = Some (rt1, RETURNED v) \<longrightarrow>
            (if take 1 (allocPlan rt1) = [False]
             then \<exists>rt2. errorStackGetter get d rt (ObjectValue target) = Some (rt2, EXCEPTION)
                        \<and> heap rt2 = heap rt1 \<and> thrownValue rt2 \<noteq> None
                        \<and> (getNamedDescriptor (heap rt1) PredefinedStack (Some target)
                               = Some (Some (AccessorProperty NativeErrorStackAccessor)) \<longrightarrow>
                             (\<forall>d' g. 0 < usableDepth g d' \<longrightarrow>
                                getNamed_RJS d' g (clearThrownValue rt2) target PredefinedStack
                                = errorStackGetter (getNamed_RJS (d' - 1)) (d' - 1)
                                    (clearThrownValue rt2) (ObjectValue target)))
             else \<exists>rt2. errorStackGetter get d rt (ObjectValue target) = Some (rt2, RETURNED v)
                        \<and> namedProperties (heap rt2 target) PredefinedStack
                            = Some (DataProperty v getNewNonEnumerableFlags)))"
proof (intro conjI allI impI)
  assume "stacktrace self = None"
  then show "errorStackGetter get d rt (ObjectValue target) = Some (rt, RETURNED (StringValue []))"
    using assms by (simp add: errorStackGetter_def dyncastThis_JSObject_def)
next
  fix rt1 v
  assume h: "stacktrace self \<noteq> None
            \<and> formatStackTrace (get True) d rt eh self target = Some (rt1, RETURNED v)"
  then have e: "errorStackGetter get d rt (ObjectValue target) =
                (case defineOwnProperty target rt1 PredefinedStack getNewNonEnumerableFlags v of
                   (rt2, EXCEPTION) \<Rightarrow> Some (rt2, EXCEPTION)
                 | (rt2, RETURNED ok) \<Rightarrow> Some (rt2, RETURNED v))"
    using errorStackGetter_traced [OF assms, of get d] by simp
  show "if take 1 (allocPlan rt1) = [False]
        then \<exists>rt2. errorStackGetter get d rt (ObjectValue target) = Some (rt2, EXCEPTION)
                   \<and> heap rt2 = heap rt1 \<and> thrownValue rt2 \<noteq> None
                   \<and> (getNamedDescriptor (heap rt1) PredefinedStack (Some target)
                          = Some (Some (AccessorProperty NativeErrorStackAccessor)) \<longrightarrow>
                        (\<forall>d' g. 0 < usableDepth g d' \<longrightarrow>
                           getNamed_RJS d' g (clearThrownValue rt2) target PredefinedStack
                           = errorStackGetter (getNamed_RJS (d' - 1)) (d' - 1)
                               (clearThrownValue rt2) (ObjectValue target)))
        else \<exists>rt2. errorStackGetter get d rt (ObjectValue target) = Some (rt2, RETURNED v)
                   \<and> namedProperties (heap rt2 target) PredefinedStack
                       = Some (DataProperty v getNewNonEnumerableFlags)"
  proof (cases "take 1 (allocPlan rt1) = [False]")
    case True
    from defineOwnProperty_fails [OF True, of target PredefinedStack getNewNonEnumerableFlags v]
    obtain rt2 where
      w: "defineOwnProperty target rt1 PredefinedStack getNewNonEnumerableFlags v = (rt2, EXCEPTION)"
      and hp: "heap rt2 = heap rt1" and tv: "thrownValue rt2 \<noteq> None"
      by blast
    have "heap (clearThrownValue rt2) = heap rt1"
      using hp by (simp add: clearThrownValue_def)
    then have "getNamedDescriptor (heap rt1) PredefinedStack (Some target)
                 = Some (Some (AccessorProperty NativeErrorStackAccessor)) \<longrightarrow>
               (\<forall>d' g. 0 < usableDepth g d' \<longrightarrow>
                  getNamed_RJS d' g (clearThrownValue rt2) target PredefinedStack
                  = errorStackGetter (getNamed_RJS (d' - 1)) (d' - 1)
                      (clearThrownValue rt2) (ObjectValue target))"
      by (simp add: getNamed_RJS_native)
    moreover have "errorStackGetter get d rt (ObjectValue target) = Some (rt2, EXCEPTION)"
      using w by (simp add: e)
    ultimately show ?thesis
      unfolding if_P [OF True] using hp tv by blast
  next
    case False
    from defineOwnProperty_stores [OF False, of target PredefinedStack getNewNonEnumerableFlags v]
    show ?thesis using False by (auto simp: e)
  qed
qed

theorem errorStackGetter_write_back_witness:
  "errorStackGetter (getNamed_RJS 2) 2 (stackRuntime None []) (ObjectValue 45)
     = Some (stackRuntime None [], RETURNED (StringValue []))
   \<and> (\<exists>rt2. errorStackGetter (getNamed_RJS 2) 2 (stackRuntime None [False]) (ObjectValue 41)
              = Some (rt2, EXCEPTION)
            \<and> heap rt2 = heap (stackRuntime None [False]) \<and> thrownValue rt2 \<noteq> None
            \<and> getNamed_RJS 5 False (clearThrownValue rt2) 41 PredefinedStack
                = errorStackGetter (getNamed_RJS 4) 4 (clearThrownValue rt2) (ObjectValue 41))
   \<and> (\<exists>rt2. errorStackGetter (getNamed_RJS 2) 2 (stackRuntime None [True]) (ObjectValue 41)
              = Some (rt2, RETURNED (StringValue (defaultStack ''m'')))
            \<and> namedProperties (heap rt2 41) PredefinedStack
                = Some (DataProperty (StringValue (defaultStack ''m''))
                          getNewNonEnumerableFlags))"
proof -
  have n: "stacktrace (emptyError\<lparr>stacktrace := None\<rparr>) = None"
    and t: "stacktrace (emptyError\<lparr>stacktrace := Some [nativeEntry]\<rparr>) \<noteq> None"
    by simp_all
  have p: "take 1 (allocPlan (stackRuntime None [False])) = [False]"
          "take 1 (allocPlan (stackRuntime None [True])) \<noteq> [False]"
    by (simp_all add: stackRuntime_def)
  have a: "getNamedDescriptor (heap (stackRuntime None [False])) PredefinedStack (Some 41)
           = Some (Some (AccessorProperty NativeErrorStackAccessor))"
    by (simp add: getNamedDescriptor.simps stackRuntime_defs)
  have u: "0 < usableDepth False 5" "(5::nat) - 1 = 4"
    by (simp_all add: usableDepth_def kDepthAdjustment_def)
  note fresh = errorStackGetter_write_back [OF found41(3) [of None "[]"] found41(4) [of None "[]"],
                   where get = "getNamed_RJS 2" and d = 2, THEN conjunct1, rule_format, OF n]
  note fails = errorStackGetter_write_back [OF found41(1) [of None "[False]"] found41(2) [of None "[False]"],
                   where get = "getNamed_RJS 2" and d = 2, THEN conjunct2, rule_format,
                   of "stackRuntime None [False]" "StringValue (defaultStack ''m'')"]
  note stores = errorStackGetter_write_back [OF found41(1) [of None "[True]"] found41(2) [of None "[True]"],
                    where get = "getNamed_RJS 2" and d = 2, THEN conjunct2, rule_format,
                    of "stackRuntime None [True]" "StringValue (defaultStack ''m'')"]
  from fails t p(1) format41_default
  obtain rt2 where
    f1: "errorStackGetter (getNamed_RJS 2) 2 (stackRuntime None [False]) (ObjectValue 41)
           = Some (rt2, EXCEPTION)"
    and f2: "heap rt2 = heap (stackRuntime None [False])" and f3: "thrownValue rt2 \<noteq> None"
    and f4: "getNamedDescriptor (heap (stackRuntime None [False])) PredefinedStack (Some 41)
               = Some (Some (AccessorProperty NativeErrorStackAccessor)) \<longrightarrow>
             (\<forall>d' g. 0 < usableDepth g d' \<longrightarrow>
                getNamed_RJS d' g (clearThrownValue rt2) 41 PredefinedStack
                = errorStackGetter (getNamed_RJS (d' - 1)) (d' - 1)
                    (clearThrownValue rt2) (ObjectValue 41))"
    by auto
  have "getNamed_RJS 5 False (clearThrownValue rt2) 41 PredefinedStack
        = errorStackGetter (getNamed_RJS 4) 4 (clearThrownValue rt2) (ObjectValue 41)"
    using f4 a u(1) unfolding u(2) [symmetric] by blast
  then have second: "\<exists>rt2. errorStackGetter (getNamed_RJS 2) 2 (stackRuntime None [False]) (ObjectValue 41)
              = Some (rt2, EXCEPTION)
            \<and> heap rt2 = heap (stackRuntime None [False]) \<and> thrownValue rt2 \<noteq> None
            \<and> getNamed_RJS 5 False (clearThrownValue rt2) 41 PredefinedStack
                = errorStackGetter (getNamed_RJS 4) 4 (clearThrownValue rt2) (ObjectValue 41)"
    using f1 f2 f3 by blast
  show ?thesis
    using fresh stores second t p format41_default by simp
qed

text \<open>
  C9, as the claim states it, fails for the errors it is about. For an error that was
  never thrown the getter returns before the write-back: with every storage request
  succeeding, the read of the \<^verbatim>\<open>stack\<close> of the error at 45 returns the empty
  string and the runtime is as before, so that the property has not become a plain
  stored value: the receiver has no \<^verbatim>\<open>stack\<close> of its own and the lookup still
  finds the accessor of the prototype.
\<close>

theorem never_thrown_counterexample:
  "jsError (heap (stackRuntime None []) 45) = Some (emptyError\<lparr>stacktrace := None\<rparr>)
   \<and> allocPlan (stackRuntime None []) = []
   \<and> getNamed_RJS 5 False (stackRuntime None []) 45 PredefinedStack
       = Some (stackRuntime None [], RETURNED (StringValue []))
   \<and> namedProperties (heap (stackRuntime None []) 45) PredefinedStack = None
   \<and> getNamedDescriptor (heap (stackRuntime None [])) PredefinedStack (Some 45)
       = Some (Some (AccessorProperty NativeErrorStackAccessor))"
  by (simp add: read_defs stackRuntime_defs)

text \<open>
  C1, as the code has it. Let \<^verbatim>\<open>errorStackGetter\<close> be called for an error with a
  captured trace. When it returns a value, the \<^verbatim>\<open>stack\<close> property of the receiver
  is that value, stored plainly and not enumerable, and every read of the property made
  while that stored value is in place returns the value and leaves the runtime as it is:
  no capture, no formatting, no call of the hook. When it returns an exception, it has
  made no redefinition of its own: every object is as formatting left it.
\<close>

theorem errorStackGetter_memoizes:
  assumes "getErrorFromStackTarget (heap rt) (Some target) = Some (Some eh)"
    and "jsError (heap rt eh) = Some self"
    and "stacktrace self \<noteq> None"
    and "errorStackGetter get d rt (ObjectValue target) = Some (rt', r)"
  shows "(\<forall>v. r = RETURNED v \<longrightarrow>
            namedProperties (heap rt' target) PredefinedStack
              = Some (DataProperty v getNewNonEnumerableFlags)
            \<and> \<not> enumerable getNewNonEnumerableFlags
            \<and> (\<forall>rt'' d' g.
                 namedProperties (heap rt'' target) PredefinedStack
                   = Some (DataProperty v getNewNonEnumerableFlags) \<longrightarrow>
                 getNamed_RJS d' g rt'' target PredefinedStack = Some (rt'', RETURNED v)))
       \<and> (r = EXCEPTION \<longrightarrow>
            (\<exists>rt1 r1. formatStackTrace (get True) d rt eh self target = Some (rt1, r1)
                      \<and> heap rt' = heap rt1))"
proof (intro conjI allI impI)
  fix v
  assume r: "r = RETURNED v"
  obtain rt1 where f: "formatStackTrace (get True) d rt eh self target = Some (rt1, RETURNED v)"
    and w: "defineOwnProperty target rt1 PredefinedStack getNewNonEnumerableFlags v
            = (rt', RETURNED True)"
    using assms(4) r unfolding errorStackGetter_traced [OF assms(1-3)]
    by (auto simp: defineOwnProperty_def split: option.splits CallResult.splits prod.splits)
  show "namedProperties (heap rt' target) PredefinedStack
           = Some (DataProperty v getNewNonEnumerableFlags)"
    using w by (auto simp: defineOwnProperty_def split: prod.splits CallResult.splits)
  show "\<not> enumerable getNewNonEnumerableFlags"
    by (simp add: getNewNonEnumerableFlags_def)
next
  fix v and rt'' :: Runtime and d' g
  assume "namedProperties (heap rt'' target) PredefinedStack
            = Some (DataProperty v getNewNonEnumerableFlags)"
  then show "getNamed_RJS d' g rt'' target PredefinedStack = Some (rt'', RETURNED v)"
    by (rule getNamed_RJS_data)
next
  assume r: "r = EXCEPTION"
  obtain rt1 r1 where f: "formatStackTrace (get True) d rt eh self target = Some (rt1, r1)"
    using assms(4) unfolding errorStackGetter_traced [OF assms(1-3)]
    by (auto split: option.splits)
  show "\<exists>rt1 r1. formatStackTrace (get True) d rt eh self target = Some (rt1, r1)
                  \<and> heap rt' = heap rt1"
  proof (cases r1)
    case EXCEPTION
    then have "rt' = rt1"
      using assms(4) f unfolding errorStackGetter_traced [OF assms(1-3)] by simp
    then show ?thesis using f by blast
  next
    case (RETURNED v)
    then have "defineOwnProperty target rt1 PredefinedStack getNewNonEnumerableFlags v
               = (rt', EXCEPTION)"
      using assms(4) f r unfolding errorStackGetter_traced [OF assms(1-3)]
      by (auto split: prod.splits CallResult.splits)
    from defineOwnProperty_heap [OF this] f show ?thesis by blast
  qed
qed

lemma format41_throwing:
  "formatStackTrace (getNamed_RJS 2 True) 2 (stackRuntime (Some throwingHook) []) 41
     (emptyError\<lparr>stacktrace := Some [nativeEntry]\<rparr>) 41
   = Some ((stackRuntime (Some throwingHook) [])
             \<lparr>thrownValue := Some (StringValue ''hook failed''), callLog := [43]\<rparr>, EXCEPTION)"
  by (simp add: read_defs stackRuntime_defs throwingHook_def)

lemma getter41_throwing:
  "\<exists>rt'. errorStackGetter (getNamed_RJS 2) 2 (stackRuntime (Some throwingHook) [])
            (ObjectValue 41) = Some (rt', EXCEPTION)"
  by (simp add: read_defs stackRuntime_defs throwingHook_def)

theorem errorStackGetter_memoizes_witness:
  "(\<exists>rt'. errorStackGetter (getNamed_RJS 2) 2 (stackRuntime None []) (ObjectValue 41)
            = Some (rt', RETURNED (StringValue (defaultStack ''m'')))
         \<and> namedProperties (heap rt' 41) PredefinedStack
            = Some (DataProperty (StringValue (defaultStack ''m'')) getNewNonEnumerableFlags)
         \<and> getNamed_RJS 5 False rt' 41 PredefinedStack
            = Some (rt', RETURNED (StringValue (defaultStack ''m''))))
   \<and> (\<exists>rt'. errorStackGetter (getNamed_RJS 2) 2 (stackRuntime (Some throwingHook) [])
               (ObjectValue 41) = Some (rt', EXCEPTION)
            \<and> heap rt' = heap (stackRuntime (Some throwingHook) []))"
proof -
  have t: "stacktrace (emptyError\<lparr>stacktrace := Some [nativeEntry]\<rparr>) \<noteq> None"
    by simp
  note returned = errorStackGetter_memoizes [OF found41(1) found41(2) t getter41_default,
                    THEN conjunct1, rule_format, OF refl]
  have first: "\<exists>rt'. errorStackGetter (getNamed_RJS 2) 2 (stackRuntime None []) (ObjectValue 41)
            = Some (rt', RETURNED (StringValue (defaultStack ''m'')))
         \<and> namedProperties (heap rt' 41) PredefinedStack
            = Some (DataProperty (StringValue (defaultStack ''m'')) getNewNonEnumerableFlags)
         \<and> getNamed_RJS 5 False rt' 41 PredefinedStack
            = Some (rt', RETURNED (StringValue (defaultStack ''m'')))"
    using returned getter41_default by blast
  obtain rt' where
    e: "errorStackGetter (getNamed_RJS 2) 2 (stackRuntime (Some throwingHook) [])
          (ObjectValue 41) = Some (rt', EXCEPTION)"
    using getter41_throwing by blast
  from errorStackGetter_memoizes [OF found41(1) found41(2) t e, THEN conjunct2, rule_format,
         OF refl]
  have "heap rt' = heap (stackRuntime (Some throwingHook) [])"
    unfolding format41_throwing by auto
  then show ?thesis
    using first e by blast
qed

text \<open>
  C1, as the claim states it, fails where the first read does not return: with a hook
  that throws, the first read of \<^verbatim>\<open>stack\<close> ends in the exception, the property is
  still the accessor of the prototype, and the second read formats again and calls the
  hook a second time (the log of calls holds it twice).
\<close>

theorem throwing_hook_counterexample:
  "getNamed_RJS 5 False (stackRuntime (Some throwingHook) []) 41 PredefinedStack
     = Some ((stackRuntime (Some throwingHook) [])
               \<lparr>thrownValue := Some (StringValue ''hook failed''), callLog := [43]\<rparr>, EXCEPTION)
   \<and> getNamedDescriptor
        (heap ((stackRuntime (Some throwingHook) [])
                 \<lparr>thrownValue := Some (StringValue ''hook failed''), callLog := [43]\<rparr>))
        PredefinedStack (Some 41)
     = Some (Some (AccessorProperty NativeErrorStackAccessor))
   \<and> getNamed_RJS 5 False
        (clearThrownValue
           ((stackRuntime (Some throwingHook) [])
              \<lparr>thrownValue := Some (StringValue ''hook failed''), callLog := [43]\<rparr>))
        41 PredefinedStack
     = Some ((stackRuntime (Some throwingHook) [])
               \<lparr>thrownValue := Some (StringValue ''hook failed''), callLog := [43, 43]\<rparr>,
             EXCEPTION)"
  by (simp add: read_defs stackRuntime_defs throwingHook_def)

subsection \<open>The recursion guard\<close>

lemma readKeepsGuardD:
  "readKeepsGuard get \<Longrightarrow> get rt a p = Some (rt', r) \<Longrightarrow> guardView rt' = guardView rt"
  unfolding readKeepsGuard_def by blast

lemma guardView_updates [simp]:
  "guardView (rt\<lparr>thrownValue := t\<rparr>) = guardView rt"
  "guardView (rt\<lparr>allocPlan := p\<rparr>) = guardView rt"
  "guardView (rt\<lparr>heap := h\<rparr>) = guardView rt"
  "guardView (setThrownValue rt v) = guardView rt"
  "guardView (clearThrownValue rt) = guardView rt"
  by (simp_all add: guardView_def setThrownValue_def clearThrownValue_def)

lemma allocate_guard: "allocate rt = (rt', r) \<Longrightarrow> guardView rt' = guardView rt"
  by (auto simp: allocate_def raiseRangeError_def split: list.splits if_splits)

lemma runUserCode_guard:
  "readKeepsGuard get \<Longrightarrow> runUserCode code get rt = Some (rt', r)
   \<Longrightarrow> guardView rt' = guardView rt"
proof (induction code arbitrary: rt)
  case (UReturn v)
  then show ?case by simp
next
  case (UThrow v)
  then show ?case by auto
next
  case (UGetStack a k)
  obtain rt1 r1 where g: "get rt a PredefinedStack = Some (rt1, r1)"
    using UGetStack.prems(2) by (auto split: option.splits)
  note g1 = readKeepsGuardD [OF UGetStack.prems(1) g]
  show ?case
  proof (cases r1)
    case (RETURNED x)
    then have "runUserCode (k (Normal x)) get rt1 = Some (rt', r)"
      using UGetStack.prems(2) g by simp
    from UGetStack.IH [OF _ UGetStack.prems(1) this] g1 show ?thesis by simp
  next
    case EXCEPTION
    show ?thesis
    proof (cases "thrownValue rt1")
      case None
      then show ?thesis using UGetStack.prems(2) g EXCEPTION by simp
    next
      case (Some t)
      show ?thesis
      proof (cases "isUncatchableError rt1 t")
        case True
        then show ?thesis using UGetStack.prems(2) g EXCEPTION Some g1 by simp
      next
        case False
        then have "runUserCode (k (Abrupt t)) get (clearThrownValue rt1) = Some (rt', r)"
          using UGetStack.prems(2) g EXCEPTION Some by simp
        from UGetStack.IH [OF _ UGetStack.prems(1) this] g1 show ?thesis by simp
      qed
    qed
  qed
qed

lemma toString_RJS_guard:
  assumes "readKeepsGuard get" and "toString_RJS get rt v = Some (rt', r)"
  shows "guardView rt' = guardView rt"
proof (cases v)
  case (ObjectValue a)
  obtain rt1 r1 where g: "runUserCode (toPrimitiveCode (heap rt a)) get rt = Some (rt1, r1)"
    using assms(2) ObjectValue by (auto simp: toString_RJS_def split: option.splits)
  note v1 = runUserCode_guard [OF assms(1) g]
  show ?thesis
    using assms(2) ObjectValue g v1
    by (auto simp: toString_RJS_def raiseTypeError_def
             split: CallResult.splits HermesValue.splits)
qed (use assms(2) in \<open>auto simp: toString_RJS_def\<close>)

lemma JSError_toString_guard:
  assumes "readKeepsGuard get" and "JSError_toString get a rt = Some (rt', r)"
  shows "guardView rt' = guardView rt"
proof -
  obtain rt1 r1 where g1: "get rt a PredefinedName = Some (rt1, r1)"
    using assms(2) by (auto simp: JSError_toString_def split: option.splits)
  note v1 = readKeepsGuardD [OF assms(1) g1]
  show ?thesis
  proof (cases r1)
    case EXCEPTION
    then show ?thesis using assms(2) g1 v1 by (simp add: JSError_toString_def)
  next
    case (RETURNED name)
    obtain rt2 r2 where g2: "(if name = UndefinedValue then Some (rt1, RETURNED ''Error'')
                              else toString_RJS get rt1 name) = Some (rt2, r2)"
      using assms(2) g1 RETURNED by (auto simp: JSError_toString_def split: option.splits)
    have v2: "guardView rt2 = guardView rt1"
      using g2 toString_RJS_guard [OF assms(1)] by (auto split: if_splits)
    show ?thesis
    proof (cases r2)
      case EXCEPTION
      then show ?thesis using assms(2) g1 RETURNED g2 v1 v2 by (simp add: JSError_toString_def)
    next
      case nameStr: (RETURNED nameStr)
      obtain rt3 r3 where g3: "get rt2 a PredefinedMessage = Some (rt3, r3)"
        using assms(2) g1 RETURNED g2 nameStr
        by (auto simp: JSError_toString_def split: option.splits)
      note v3 = readKeepsGuardD [OF assms(1) g3]
      show ?thesis
      proof (cases r3)
        case EXCEPTION
        then show ?thesis
          using assms(2) g1 RETURNED g2 nameStr g3 v1 v2 v3 by (simp add: JSError_toString_def)
      next
        case msg: (RETURNED msg)
        obtain rt4 r4 where g4: "(if msg = UndefinedValue then Some (rt3, RETURNED [])
                                  else toString_RJS get rt3 msg) = Some (rt4, r4)"
          using assms(2) g1 RETURNED g2 nameStr g3 msg
          by (auto simp: JSError_toString_def split: option.splits)
        have v4: "guardView rt4 = guardView rt3"
          using g4 toString_RJS_guard [OF assms(1)] by (auto split: if_splits)
        show ?thesis
          using assms(2) g1 RETURNED g2 nameStr g3 msg g4 v1 v2 v3 v4
          by (cases r4)
             (auto simp: JSError_toString_def createStringBuilder_def raiseRangeError_def
                   split: if_splits)
      qed
    qed
  qed
qed

lemma appendErrorDescription_guard:
  assumes "readKeepsGuard get" and "appendErrorDescription get rt a stack = Some (rt', r)"
  shows "guardView rt' = guardView rt"
proof -
  obtain rt1 r1 where g1: "JSError_toString get a rt = Some (rt1, r1)"
    using assms(2) by (auto simp: appendErrorDescription_def split: option.splits)
  note v1 = JSError_toString_guard [OF assms(1) g1]
  obtain rt2 r2 where g2:
    "(if r1 = EXCEPTION \<and> \<not> isUncatchableThrown rt1
      then (case thrownValue rt1 of
              Some thrown \<Rightarrow>
                if isObject thrown
                then (case thrown of
                        ObjectValue thrownObject \<Rightarrow>
                          JSError_toString get thrownObject (clearThrownValue rt1)
                      | _ \<Rightarrow> Some (clearThrownValue rt1, RETURNED ''Error''))
                else Some (rt1, r1)
            | None \<Rightarrow> Some (rt1, r1))
      else Some (rt1, r1)) = Some (rt2, r2)"
    using assms(2) g1 by (auto simp: appendErrorDescription_def Let_def split: option.splits)
  have v2: "guardView rt2 = guardView rt1"
    using g2 JSError_toString_guard [OF assms(1)]
    by (fastforce split: if_splits option.splits HermesValue.splits)
  show ?thesis
    using assms(2) g1 g2 v1 v2
    by (cases r2) (auto simp: appendErrorDescription_def Let_def split: if_splits)
qed

lemma constructStackTraceString_guard:
  assumes "readKeepsGuard get"
    and "constructStackTraceString_RJS get d rt self a stack = Some (rt', r)"
  shows "guardView rt' = guardView rt"
  using assms(2) appendErrorDescription_guard [OF assms(1)]
  by (auto simp: constructStackTraceString_RJS_def raiseStackOverflow_def
           split: if_splits option.splits CallResult.splits)

lemma formatWithDefaultString_guard:
  assumes "readKeepsGuard get"
    and "formatWithDefaultString get d rt self a = Some (rt', r)"
  shows "guardView rt' = guardView rt"
  using assms(2) constructStackTraceString_guard [OF assms(1)]
  by (auto simp: formatWithDefaultString_def StringPrimitive_create_def raiseRangeError_def
           split: if_splits option.splits CallResult.splits prod.splits)

lemma formatWithPrepareStackTrace_clears:
  "formatWithPrepareStackTrace get rt hook eh self a = Some (rt', r)
   \<Longrightarrow> \<not> formattingStackTrace rt'"
  by (auto simp: formatWithPrepareStackTrace_def Let_def
           split: option.splits CallResult.splits prod.splits)

lemma formatStackTrace_guard:
  assumes "readKeepsGuard get"
    and "formatStackTrace get d rt eh self a = Some (rt', r)"
  shows "guardView rt' = guardView rt"
proof -
  obtain rt1 r1 where
    g1: "get rt (errorConstructor rt) PredefinedPrepareStackTrace = Some (rt1, r1)"
    using assms(2) by (auto simp: formatStackTrace_def split: option.splits)
  note v1 = readKeepsGuardD [OF assms(1) g1]
  show ?thesis
  proof (cases r1)
    case EXCEPTION
    then show ?thesis using assms(2) g1 v1 by (simp add: formatStackTrace_def)
  next
    case (RETURNED res)
    show ?thesis
    proof (cases "dyn_vmcast_Callable rt1 res \<noteq> None \<and> \<not> formattingStackTrace rt1")
      case True
      then obtain hook where
        "formatWithPrepareStackTrace get rt1 hook eh self a = Some (rt', r)"
        using assms(2) g1 RETURNED by (auto simp: formatStackTrace_def)
      from formatWithPrepareStackTrace_clears [OF this] True v1
      show ?thesis by (auto simp: guardView_def split: if_splits)
    next
      case False
      then have "formatWithDefaultString get d rt1 self a = Some (rt', r)"
        using assms(2) g1 RETURNED by (auto simp: formatStackTrace_def split: option.splits)
      from formatWithDefaultString_guard [OF assms(1) this] v1 show ?thesis by simp
    qed
  qed
qed

lemma defineOwnProperty_guard:
  "defineOwnProperty h rt P dpf v = (rt', r) \<Longrightarrow> guardView rt' = guardView rt"
  by (auto simp: defineOwnProperty_def split: prod.splits CallResult.splits
           dest: allocate_guard)

lemma errorStackGetter_guard:
  assumes "readKeepsGuard (get True)" and "errorStackGetter get d rt this = Some (rt', r)"
  shows "guardView rt' = guardView rt"
  using assms(2) formatStackTrace_guard [OF assms(1)] defineOwnProperty_guard
  by (auto simp: errorStackGetter_def Let_def
           split: option.splits if_splits CallResult.splits prod.splits)

lemma getNamed_RJS_guard: "readKeepsGuard (getNamed_RJS d g)"
proof (induction d arbitrary: g)
  case 0
  show ?case
    unfolding readKeepsGuard_def
    by (auto simp: getNamed_RJS.simps raiseStackOverflow_def usableDepth_def
             split: option.splits Property.splits)
next
  case (Suc d)
  show ?case
    unfolding readKeepsGuard_def
  proof (intro allI impI)
    fix rt a p rt' r
    assume h: "getNamed_RJS (Suc d) g rt a p = Some (rt', r)"
    show "guardView rt' = guardView rt"
    proof (cases "getNamedDescriptor (heap rt) p (Some a)")
      case None
      then show ?thesis using h by (simp add: getNamed_RJS.simps)
    next
      case (Some found)
      show ?thesis
      proof (cases found)
        case None
        then show ?thesis using h Some by (simp add: getNamed_RJS.simps)
      next
        case some: (Some property)
        show ?thesis
        proof (cases property)
          case (DataProperty v f)
          then show ?thesis using h Some some by (simp add: getNamed_RJS.simps)
        next
          case (AccessorProperty acc)
          show ?thesis
          proof (cases "usableDepth g (Suc d) = 0")
            case True
            then show ?thesis
              using h Some some AccessorProperty
              by (auto simp: getNamed_RJS.simps raiseStackOverflow_def)
          next
            case False
            show ?thesis
            proof (cases acc)
              case NativeErrorStackAccessor
              then have "errorStackGetter (getNamed_RJS d) d rt (ObjectValue a) = Some (rt', r)"
                using h Some some AccessorProperty False by (simp add: getNamed_RJS.simps)
              then show ?thesis by (rule errorStackGetter_guard [OF Suc.IH])
            next
              case (UserAccessor body)
              then have "runUserCode (body (ObjectValue a)) (getNamed_RJS d g) rt = Some (rt', r)"
                using h Some some AccessorProperty False by (simp add: getNamed_RJS.simps)
              then show ?thesis by (rule runUserCode_guard [OF Suc.IH])
            qed
          qed
        qed
      qed
    qed
  qed
qed

lemma allocate_flag:
  "allocate rt = (rt', r) \<Longrightarrow>
   formattingStackTrace rt' = formattingStackTrace rt \<and> callLog rt' = callLog rt"
  by (auto simp: allocate_def raiseRangeError_def setThrownValue_def
           split: list.splits if_splits)

lemma callSitesLoop_flag:
  "callSitesLoop h self max' index array rt = (rt', r) \<Longrightarrow>
   formattingStackTrace rt' = formattingStackTrace rt \<and> callLog rt' = callLog rt"
proof (induction h self max' index array rt rule: callSitesLoop.induct)
  case (1 selfHandle self max' index array runtime)
  show ?case
  proof (cases "index < max'")
    case False
    then show ?thesis using "1.prems" by (subst (asm) callSitesLoop.simps) simp
  next
    case True
    obtain rt1 r1 where a: "allocate runtime = (rt1, r1)" by (cases "allocate runtime")
    note f = allocate_flag [OF a]
    show ?thesis
    proof (cases r1)
      case EXCEPTION
      then show ?thesis
        using "1.prems" True a f
        by (subst (asm) callSitesLoop.simps) (simp add: JSCallSite_create_def)
    next
      case (RETURNED u)
      have c: "JSCallSite_create runtime selfHandle (index + firstExposedFrameIndex self)
               = (rt1, RETURNED (selfHandle, index + firstExposedFrameIndex self))"
        using a RETURNED by (simp add: JSCallSite_create_def)
      have "callSitesLoop selfHandle self max' (index + 1)
              (array @ [(selfHandle, index + firstExposedFrameIndex self)]) rt1 = (rt', r)"
        using "1.prems" True c by (subst (asm) callSitesLoop.simps) simp
      from "1.IH" [OF True refl c [symmetric] refl this] f show ?thesis by simp
    qed
  qed
qed

lemma constructCallSitesArray_flag:
  "constructCallSitesArray rt eh self = (rt', r) \<Longrightarrow>
   formattingStackTrace rt' = formattingStackTrace rt \<and> callLog rt' = callLog rt"
proof -
  assume h: "constructCallSitesArray rt eh self = (rt', r)"
  obtain rt1 r1 where a: "allocate rt = (rt1, r1)" by (cases "allocate rt")
  note f = allocate_flag [OF a]
  show ?thesis
  proof (cases r1)
    case EXCEPTION
    then show ?thesis
      using h a f by (simp add: constructCallSitesArray_def JSArray_create_def Let_def)
  next
    case (RETURNED u)
    show ?thesis
    proof (cases "stacktrace self")
      case None
      then show ?thesis
        using h a f RETURNED
        by (simp add: constructCallSitesArray_def JSArray_create_def Let_def)
    next
      case (Some trace)
      obtain rt2 r2 where
        l: "callSitesLoop eh self (size_t_sub (length trace) (firstExposedFrameIndex self)) 0 []
              rt1 = (rt2, r2)"
        by (cases "callSitesLoop eh self
                     (size_t_sub (length trace) (firstExposedFrameIndex self)) 0 [] rt1")
      have "rt' = rt2"
        using h a RETURNED Some l
        by (cases r2) (simp_all add: constructCallSitesArray_def JSArray_create_def Let_def)
      then show ?thesis
        using callSitesLoop_flag [OF l] f by simp
    qed
  qed
qed

lemma formatWithPrepareStackTrace_calls:
  assumes "readKeepsGuard get"
    and "formatWithPrepareStackTrace get rt hook eh self target = Some (rt', r)"
  shows "callLog rt' = callLog rt @ [hook] \<or> callLog rt' = callLog rt"
proof -
  let ?rt0 = "rt\<lparr>formattingStackTrace := True\<rparr>"
  obtain rt1 r1 where c: "constructCallSitesArray ?rt0 eh self = (rt1, r1)"
    by (cases "constructCallSitesArray ?rt0 eh self")
  from constructCallSitesArray_flag [OF c]
  have f1: "formattingStackTrace rt1" and l1: "callLog rt1 = callLog rt"
    by simp_all
  show ?thesis
  proof (cases r1)
    case EXCEPTION
    then show ?thesis
      using assms(2) c l1 by (auto simp: formatWithPrepareStackTrace_def Let_def)
  next
    case (RETURNED callSites)
    obtain rt2 r2 where e: "executeCall2 get rt1 hook NullValue (ObjectValue target) callSites
                            = Some (rt2, r2)"
      using assms(2) c RETURNED
      by (auto simp: formatWithPrepareStackTrace_def Let_def split: option.splits)
    then obtain body where
      "runUserCode (body NullValue (ObjectValue target) callSites) get
         (rt1\<lparr>callLog := callLog rt1 @ [hook]\<rparr>) = Some (rt2, r2)"
      by (auto simp: executeCall2_def split: option.splits)
    from runUserCode_guard [OF assms(1) this] f1 l1
    have "callLog rt2 = callLog rt @ [hook]"
      by (auto simp: guardView_def split: if_splits)
    moreover have "rt' = rt2\<lparr>formattingStackTrace := False\<rparr>"
      using assms(2) c RETURNED e
      by (cases r2) (auto simp: formatWithPrepareStackTrace_def Let_def)
    ultimately show ?thesis by simp
  qed
qed

text \<open>
  C4. Every completed read of a property, and every completed call of
  \<^verbatim>\<open>errorStackGetter\<close>, leaves the formatting flag as it found it, and where it found
  the flag set (a hook invocation is in progress) it calls no hook: the log of hook calls
  is unchanged, for the same error and for any other. With the flag set,
  the getter formats with the default string synthesis. The branch that calls the hook
  leaves the flag cleared on every exit, with a value or with an exception, and logs at
  most the one call of the hook itself, so that a later read at top level calls the hook
  again.
\<close>

theorem formatting_guard:
  "(\<forall>rt' r. getNamed_RJS d g rt a p = Some (rt', r) \<longrightarrow>
      formattingStackTrace rt' = formattingStackTrace rt
      \<and> (formattingStackTrace rt \<longrightarrow> callLog rt' = callLog rt))
   \<and> (\<forall>rt' r. errorStackGetter (getNamed_RJS d) d rt this = Some (rt', r) \<longrightarrow>
      formattingStackTrace rt' = formattingStackTrace rt
      \<and> (formattingStackTrace rt \<longrightarrow> callLog rt' = callLog rt))
   \<and> (\<forall>hook eh self target rt' r.
        formatWithPrepareStackTrace (getNamed_RJS d g) rt hook eh self target = Some (rt', r) \<longrightarrow>
        \<not> formattingStackTrace rt'
        \<and> (callLog rt' = callLog rt @ [hook] \<or> callLog rt' = callLog rt))
   \<and> (\<forall>eh self target rt1 res d'.
        getNamed_RJS d g rt (errorConstructor rt) PredefinedPrepareStackTrace
          = Some (rt1, RETURNED res)
        \<and> formattingStackTrace rt \<longrightarrow>
        formatStackTrace (getNamed_RJS d g) d' rt eh self target
          = formatWithDefaultString (getNamed_RJS d g) d' rt1 self target)"
proof -
  have g: "\<And>rt rt' :: Runtime. guardView rt' = guardView rt \<Longrightarrow>
             formattingStackTrace rt' = formattingStackTrace rt
             \<and> (formattingStackTrace rt \<longrightarrow> callLog rt' = callLog rt)"
    by (auto simp: guardView_def split: if_splits)
  have 1: "\<forall>rt' r. getNamed_RJS d g rt a p = Some (rt', r) \<longrightarrow>
      formattingStackTrace rt' = formattingStackTrace rt
      \<and> (formattingStackTrace rt \<longrightarrow> callLog rt' = callLog rt)"
    using readKeepsGuardD [OF getNamed_RJS_guard] g by blast
  have 2: "\<forall>rt' r. errorStackGetter (getNamed_RJS d) d rt this = Some (rt', r) \<longrightarrow>
      formattingStackTrace rt' = formattingStackTrace rt
      \<and> (formattingStackTrace rt \<longrightarrow> callLog rt' = callLog rt)"
    using errorStackGetter_guard [where get = "getNamed_RJS d", OF getNamed_RJS_guard] g by blast
  have 3: "\<forall>hook eh self target rt' r.
        formatWithPrepareStackTrace (getNamed_RJS d g) rt hook eh self target = Some (rt', r) \<longrightarrow>
        \<not> formattingStackTrace rt'
        \<and> (callLog rt' = callLog rt @ [hook] \<or> callLog rt' = callLog rt)"
    using formatWithPrepareStackTrace_clears
          formatWithPrepareStackTrace_calls [OF getNamed_RJS_guard]
    by blast
  have 4: "\<forall>eh self target rt1 res d'.
        getNamed_RJS d g rt (errorConstructor rt) PredefinedPrepareStackTrace
          = Some (rt1, RETURNED res)
        \<and> formattingStackTrace rt \<longrightarrow>
        formatStackTrace (getNamed_RJS d g) d' rt eh self target
          = formatWithDefaultString (getNamed_RJS d g) d' rt1 self target"
  proof (intro allI impI)
    fix eh self target rt1 res d'
    assume h: "getNamed_RJS d g rt (errorConstructor rt) PredefinedPrepareStackTrace
                 = Some (rt1, RETURNED res) \<and> formattingStackTrace rt"
    then have "formattingStackTrace rt1"
      using readKeepsGuardD [OF getNamed_RJS_guard, of d g rt "errorConstructor rt"
                                 PredefinedPrepareStackTrace rt1 "RETURNED res"] g
      by blast
    then show "formatStackTrace (getNamed_RJS d g) d' rt eh self target
          = formatWithDefaultString (getNamed_RJS d g) d' rt1 self target"
      using h by (simp add: formatStackTrace_def split: option.splits)
  qed
  show ?thesis
    using 1 2 3 4 by blast
qed

theorem formatting_guard_witness:
  "\<exists>rt1 rt2.
     getNamed_RJS 5 False (stackRuntime (Some nestedHook) []) 41 PredefinedStack
       = Some (rt1, RETURNED (StringValue (defaultStack ''inner'')))
     \<and> callLog rt1 = [43] \<and> \<not> formattingStackTrace rt1
     \<and> getNamed_RJS 5 False rt1 46 PredefinedStack
       = Some (rt2, RETURNED (StringValue (defaultStack ''inner'')))
     \<and> callLog rt2 = [43, 43] \<and> \<not> formattingStackTrace rt2"
proof -
  obtain rt2 where
    r2: "getNamed_RJS 5 False afterNested 46 PredefinedStack
           = Some (rt2, RETURNED (StringValue (defaultStack ''inner'')))"
    and l2: "callLog rt2 = [43, 43]"
    using read46_later by blast
  have f0: "\<not> formattingStackTrace (stackRuntime (Some nestedHook) [])"
    by (simp add: stackRuntime_def emptyRuntime_def)
  have f1: "\<not> formattingStackTrace afterNested"
    using formatting_guard [of 5 False "stackRuntime (Some nestedHook) []" 41 PredefinedStack, THEN conjunct1,
              rule_format, OF read41_nested] f0
    by simp
  have f2: "\<not> formattingStackTrace rt2"
    using formatting_guard [of 5 False afterNested 46 PredefinedStack, THEN conjunct1, rule_format, OF r2] f1
    by simp
  have l1: "callLog afterNested = [43]"
    by (simp add: afterNested_def)
  show ?thesis
    using read41_nested r2 l1 l2 f1 f2 by blast
qed

end
